theory Spec2Isabelle
  imports Complex_Main
begin

section \<open>JavaScript values\<close>

text \<open>
  The server is TypeScript running on a JavaScript engine. A string is modelled as a list of
  code units; the model covers code units below 256 (Latin-1), for which white space and
  lower-casing are given in full. A number is its exact rational value or one of the three
  non-finite values: rounding to binary64 and the negative zero are not modelled.
\<close>

datatype jsnum = Fin rat | PosInf | NegInf | NaN

datatype jsvalue =
    JUndefined
  | JNull
  | JBool bool
  | JNum jsnum
  | JStr string
  | JDate "int option"
  | JArr "jsvalue list"
  | JObj "(string \<times> jsvalue) list"
  | JNative string

text \<open>
  \<open>JDate t\<close> is a Date object with time value \<open>t\<close> (milliseconds since the epoch,
  \<open>None\<close> for an invalid Date). \<open>JNative k\<close> is the built-in function or object that the
  property \<open>k\<close> of \<open>Object.prototype\<close> holds. An object \<open>JObj\<close> lists its own
  properties, each key once.
\<close>

subsection \<open>Strings\<close>

definition is_ws :: "char \<Rightarrow> bool" where
  "is_ws c \<longleftrightarrow> (of_char c :: nat) \<in> {9, 10, 11, 12, 13, 32, 160}"

definition trim :: "string \<Rightarrow> string" where
  "trim s = rev (dropWhile is_ws (rev (dropWhile is_ws s)))"

definition lower_char :: "char \<Rightarrow> char" where
  "lower_char c =
     (let n = (of_char c :: nat)
      in if (65 \<le> n \<and> n \<le> 90) \<or> (192 \<le> n \<and> n \<le> 222 \<and> n \<noteq> 215)
         then char_of (n + 32) else c)"

definition toLowerCase :: "string \<Rightarrow> string" where
  "toLowerCase s = map lower_char s"

text \<open>Upper-casing, as far as the routes use it: on the first letter of a status word.\<close>

definition upper_char :: "char \<Rightarrow> char" where
  "upper_char c =
     (let n = (of_char c :: nat)
      in if (97 \<le> n \<and> n \<le> 122) \<or> (224 \<le> n \<and> n \<le> 254 \<and> n \<noteq> 247)
         then char_of (n - 32) else c)"

definition is_digit :: "char \<Rightarrow> bool" where
  "is_digit c \<longleftrightarrow> (let n = (of_char c :: nat) in 48 \<le> n \<and> n \<le> 57)"

definition digit_val :: "char \<Rightarrow> nat" where
  "digit_val c = of_char c - 48"

definition digits_val :: "string \<Rightarrow> nat" where
  "digits_val ds = foldl (\<lambda>n c. 10 * n + digit_val c) 0 ds"

text \<open>\<open>x ?? d\<close> on an optional string field, then \<open>String(...)\<close>.\<close>

definition str_or_empty :: "string option \<Rightarrow> string" where
  "str_or_empty x = (case x of None \<Rightarrow> [] | Some s \<Rightarrow> s)"

subsection \<open>Numbers from strings\<close>

text \<open>
  \<open>Number(s)\<close> on a string follows the grammar of \<open>StringNumericLiteral\<close>: optional
  white space around a binary, octal or hexadecimal integer, or around a signed decimal
  literal with optional fraction and exponent, or \<open>Infinity\<close>. The empty string is 0; any
  other text is NaN. A magnitude that rounds beyond the largest binary64 value is infinite.
\<close>

definition digit_of :: "char \<Rightarrow> nat option" where
  "digit_of c =
     (let n = (of_char c :: nat)
      in if 48 \<le> n \<and> n \<le> 57 then Some (n - 48)
         else if 97 \<le> n \<and> n \<le> 102 then Some (n - 87)
         else if 65 \<le> n \<and> n \<le> 70 then Some (n - 55)
         else None)"

fun radix_val :: "nat \<Rightarrow> nat \<Rightarrow> string \<Rightarrow> nat option" where
  "radix_val b acc [] = Some acc"
| "radix_val b acc (c # cs) =
     (case digit_of c of
        None \<Rightarrow> None
      | Some d \<Rightarrow> if d < b then radix_val b (b * acc + d) cs else None)"

definition non_decimal_literal :: "string \<Rightarrow> nat option" where
  "non_decimal_literal s =
     (case s of
        c0 # c1 # ds \<Rightarrow>
          if c0 \<noteq> CHR ''0'' \<or> ds = [] then None
          else if c1 = CHR ''b'' \<or> c1 = CHR ''B'' then radix_val 2 0 ds
          else if c1 = CHR ''o'' \<or> c1 = CHR ''O'' then radix_val 8 0 ds
          else if c1 = CHR ''x'' \<or> c1 = CHR ''X'' then radix_val 16 0 ds
          else None
      | _ \<Rightarrow> None)"

definition signed_digits :: "string \<Rightarrow> int option" where
  "signed_digits s =
     (let neg = (s \<noteq> [] \<and> hd s = CHR ''-'');
          ds = (if s \<noteq> [] \<and> (hd s = CHR ''+'' \<or> hd s = CHR ''-'') then tl s else s)
      in if ds = [] \<or> \<not> list_all is_digit ds then None
         else Some (if neg then - int (digits_val ds) else int (digits_val ds)))"

definition exponent_part :: "string \<Rightarrow> int option" where
  "exponent_part s =
     (case s of
        [] \<Rightarrow> Some 0
      | c # r \<Rightarrow> if c = CHR ''e'' \<or> c = CHR ''E'' then signed_digits r else None)"

definition scale10 :: "rat \<Rightarrow> int \<Rightarrow> rat" where
  "scale10 q e = (if 0 \<le> e then q * 10 ^ nat e else q / 10 ^ nat (- e))"

definition unsigned_decimal :: "string \<Rightarrow> jsnum" where
  "unsigned_decimal s =
     (if s = ''Infinity'' then PosInf
      else
        let ip = takeWhile is_digit s;
            r1 = dropWhile is_digit s;
            has_dot = (r1 \<noteq> [] \<and> hd r1 = CHR ''.'');
            fp = (if has_dot then takeWhile is_digit (tl r1) else []);
            r2 = (if has_dot then dropWhile is_digit (tl r1) else r1)
        in if ip = [] \<and> fp = [] then NaN
           else case exponent_part r2 of
                  None \<Rightarrow> NaN
                | Some e \<Rightarrow> Fin (scale10 (of_nat (digits_val (ip @ fp))) (e - int (length fp))))"

definition negate :: "jsnum \<Rightarrow> jsnum" where
  "negate n = (case n of Fin q \<Rightarrow> Fin (- q) | PosInf \<Rightarrow> NegInf | NegInf \<Rightarrow> PosInf | NaN \<Rightarrow> NaN)"

definition str_decimal :: "string \<Rightarrow> jsnum" where
  "str_decimal s =
     (case s of
        [] \<Rightarrow> NaN
      | c # r \<Rightarrow>
          if c = CHR ''+'' then unsigned_decimal r
          else if c = CHR ''-'' then negate (unsigned_decimal r)
          else unsigned_decimal s)"

definition overflow :: "jsnum \<Rightarrow> jsnum" where
  "overflow n =
     (case n of
        Fin q \<Rightarrow>
          if 2 ^ 1024 - 2 ^ 970 \<le> q then PosInf
          else if q \<le> - (2 ^ 1024 - 2 ^ 970) then NegInf
          else Fin q
      | _ \<Rightarrow> n)"

definition StringToNumber :: "string \<Rightarrow> jsnum" where
  "StringToNumber s =
     (let t = trim s
      in if t = [] then Fin 0
         else case non_decimal_literal t of
                Some n \<Rightarrow> overflow (Fin (of_nat n))
              | None \<Rightarrow> overflow (str_decimal t))"

definition isFinite :: "jsnum \<Rightarrow> bool" where
  "isFinite n \<longleftrightarrow> (case n of Fin _ \<Rightarrow> True | _ \<Rightarrow> False)"

subsection \<open>Errors\<close>

text \<open>
  What a route can throw: a \<open>TypeError\<close> of the language, or an error of the storage layer.
  Modelled from the spec: the errors of the storage layer (section 7: a field that fails
  validation, a reference to a row that does not exist, a target record that is absent).
\<close>

datatype store_error =
    ValidationError string
  | ForeignKeyViolation string
  | RecordNotFound

datatype failure = TypeError | Storage store_error

text \<open>Evaluation in sequence: the first error thrown ends it.\<close>

definition and_then :: "failure + 'a \<Rightarrow> ('a \<Rightarrow> failure + 'b) \<Rightarrow> failure + 'b" where
  "and_then r f = (case r of Inl e \<Rightarrow> Inl e | Inr x \<Rightarrow> f x)"

subsection \<open>Strings from values\<close>

text \<open>
  \<open>String(n)\<close> of a number is given in plain decimal notation (exact for the integers
  below \<open>10^21\<close> and for short decimal fractions); the exponent notation of very large
  and very small numbers is not modelled.
\<close>

definition digit_char :: "nat \<Rightarrow> char" where
  "digit_char d = char_of (48 + d)"

fun nat_digits :: "nat \<Rightarrow> string" where
  "nat_digits n = (if n < 10 then [digit_char n] else nat_digits (n div 10) @ [digit_char (n mod 10)])"

declare nat_digits.simps [simp del]

fun frac_digits :: "nat \<Rightarrow> rat \<Rightarrow> string" where
  "frac_digits 0 r = []"
| "frac_digits (Suc k) r =
     (if r = 0 then []
      else let d = nat \<lfloor>r * 10\<rfloor> in digit_char d # frac_digits k (r * 10 - of_nat d))"

definition NumberToString :: "jsnum \<Rightarrow> string" where
  "NumberToString n =
     (case n of
        NaN \<Rightarrow> ''NaN''
      | PosInf \<Rightarrow> ''Infinity''
      | NegInf \<Rightarrow> ''-Infinity''
      | Fin q \<Rightarrow>
          let a = \<bar>q\<bar>; ip = nat \<lfloor>a\<rfloor>; fr = a - of_nat ip
          in (if q < 0 then ''-'' else []) @ nat_digits ip
             @ (if fr = 0 then [] else CHR ''.'' # frac_digits 20 fr))"

fun join :: "string \<Rightarrow> string list \<Rightarrow> string" where
  "join sep [] = []"
| "join sep [x] = x"
| "join sep (x # y # ys) = x @ sep @ join sep (y # ys)"

text \<open>
  \<open>String(v)\<close>. A primitive value has its text. An object is first made a primitive: the
  conversion calls its \<open>toString\<close> and, if that is not a function or does not give a
  primitive, its \<open>valueOf\<close>, and throws a \<open>TypeError\<close> if neither gives one.
  \<^item> An object parsed from JSON holds no function. If it has a member \<open>toString\<close> of its
    own, that member hides the inherited function and is not callable; \<open>valueOf\<close>, its own
    or inherited, gives no primitive; so the conversion throws. Otherwise the inherited
    \<open>toString\<close> answers \<open>[object Object]\<close>.
  \<^item> An array joins the texts of its elements with commas, the empty text for \<open>null\<close> and
    \<open>undefined\<close>; an element that throws makes the array throw.
  \<^item> A built-in function has its source text.
  \<^item> The text of a valid Date depends on the time zone and is not modelled: no Date reaches
    \<open>String\<close> in the routes, and it is given here by its class tag.
\<close>

fun js_String :: "jsvalue \<Rightarrow> failure + string"
  and element_texts :: "jsvalue list \<Rightarrow> failure + string list" where
  "js_String JUndefined = Inr ''undefined''"
| "js_String JNull = Inr ''null''"
| "js_String (JBool b) = Inr (if b then ''true'' else ''false'')"
| "js_String (JNum n) = Inr (NumberToString n)"
| "js_String (JStr s) = Inr s"
| "js_String (JDate t) = Inr (case t of None \<Rightarrow> ''Invalid Date'' | Some ms \<Rightarrow> ''[object Date]'')"
| "js_String (JArr xs) =
     (case element_texts xs of Inl e \<Rightarrow> Inl e | Inr ts \<Rightarrow> Inr (join '','' ts))"
| "js_String (JObj kvs) =
     (if ''toString'' \<in> fst ` set kvs then Inl TypeError else Inr ''[object Object]'')"
| "js_String (JNative k) =
     Inr (if k = ''__proto__'' then ''[object Object]''
          else if k = ''constructor'' then ''function Object() { [native code] }''
          else ''function '' @ k @ ''() { [native code] }'')"
| "element_texts [] = Inr []"
| "element_texts (x # xs) =
     (case (if x = JUndefined \<or> x = JNull then Inr [] else js_String x) of
        Inl e \<Rightarrow> Inl e
      | Inr t \<Rightarrow> (case element_texts xs of Inl e \<Rightarrow> Inl e | Inr ts \<Rightarrow> Inr (t # ts)))"

text \<open>
  \<open>Number(v)\<close>. A Date gives its time value. Any other object is made a primitive by its
  \<open>valueOf\<close>, which gives none, and then by its \<open>toString\<close>: it converts through its
  text, and throws where \<open>String\<close> throws.
\<close>

definition js_Number :: "jsvalue \<Rightarrow> failure + jsnum" where
  "js_Number v =
     (case v of
        JUndefined \<Rightarrow> Inr NaN
      | JNull \<Rightarrow> Inr (Fin 0)
      | JBool b \<Rightarrow> Inr (Fin (if b then 1 else 0))
      | JNum n \<Rightarrow> Inr n
      | JStr s \<Rightarrow> Inr (StringToNumber s)
      | JDate t \<Rightarrow> Inr (case t of None \<Rightarrow> NaN | Some ms \<Rightarrow> Fin (of_int ms))
      | _ \<Rightarrow> and_then (js_String v) (\<lambda>t. Inr (StringToNumber t)))"

definition num_truthy :: "jsnum \<Rightarrow> bool" where
  "num_truthy n \<longleftrightarrow> n \<noteq> NaN \<and> n \<noteq> Fin 0"

definition truthy :: "jsvalue \<Rightarrow> bool" where
  "truthy v =
     (case v of
        JUndefined \<Rightarrow> False
      | JNull \<Rightarrow> False
      | JBool b \<Rightarrow> b
      | JNum n \<Rightarrow> num_truthy n
      | JStr s \<Rightarrow> s \<noteq> []
      | _ \<Rightarrow> True)"

definition nullish :: "jsvalue \<Rightarrow> bool" where
  "nullish v \<longleftrightarrow> v = JUndefined \<or> v = JNull"

text \<open>\<open>a ?? b\<close>\<close>

definition coalesce :: "jsvalue \<Rightarrow> jsvalue \<Rightarrow> jsvalue" where
  "coalesce a b = (if nullish a then b else a)"

subsection \<open>Dates\<close>

text \<open>
  The time value of a Date is a number of milliseconds since 1 January 1970 UTC. The
  functions below are the abstract operations of the language standard behind
  \<open>Date.UTC(year, month, day)\<close>.
\<close>

definition msPerDay :: int where
  "msPerDay = 86400000"

definition DayFromYear :: "int \<Rightarrow> int" where
  "DayFromYear y =
     365 * (y - 1970) + (y - 1969) div 4 - (y - 1901) div 100 + (y - 1601) div 400"

definition InLeapYear :: "int \<Rightarrow> bool" where
  "InLeapYear y \<longleftrightarrow> y mod 4 = 0 \<and> (y mod 100 \<noteq> 0 \<or> y mod 400 = 0)"

definition DaysBeforeMonth :: "int \<Rightarrow> int \<Rightarrow> int" where
  "DaysBeforeMonth y mn =
     [0, 31, 59, 90, 120, 151, 181, 212, 243, 273, 304, 334] ! nat mn
       + (if InLeapYear y \<and> 2 \<le> mn then 1 else 0)"

text \<open>\<open>MakeDay\<close> carries a month outside 0..11 into the year and counts the day from
  the first of the month, whatever its size.\<close>

definition MakeDay :: "int \<Rightarrow> int \<Rightarrow> int \<Rightarrow> int" where
  "MakeDay year month date =
     (let ym = year + month div 12; mn = month mod 12
      in DayFromYear ym + DaysBeforeMonth ym mn + date - 1)"

definition TimeClip :: "int \<Rightarrow> int option" where
  "TimeClip tv = (if \<bar>tv\<bar> > 8640000000000000 then None else Some tv)"

definition Date_UTC :: "int \<Rightarrow> int \<Rightarrow> int \<Rightarrow> int option" where
  "Date_UTC year month date =
     (let yr = (if 0 \<le> year \<and> year \<le> 99 then 1900 + year else year)
      in TimeClip (MakeDay yr month date * msPerDay))"

text \<open>Reading a time value back: the UTC calendar date (year, month 1..12, day of month).\<close>

definition civil_of_day :: "int \<Rightarrow> int \<times> int \<times> int" where
  "civil_of_day z0 =
     (let z = z0 + 719468;
          era = z div 146097;
          doe = z - era * 146097;
          yoe = (doe - doe div 1460 + doe div 36524 - doe div 146096) div 365;
          doy = doe - (365 * yoe + yoe div 4 - yoe div 100);
          mp = (5 * doy + 2) div 153;
          d = doy - (153 * mp + 2) div 5 + 1;
          m = (if mp < 10 then mp + 3 else mp - 9);
          y = yoe + era * 400 + (if m \<le> 2 then 1 else 0)
      in (y, m, d))"

definition utc_date :: "int \<Rightarrow> int \<times> int \<times> int" where
  "utc_date t = civil_of_day (t div msPerDay)"

section \<open>Normalisation helpers of the import route\<close>

subsection \<open>cleanBidStatus\<close>

definition bid_status_map :: "(string \<times> string) list" where
  "bid_status_map =
     [(''active'', ''Active''),
      (''complete'', ''Complete''),
      (''completed'', ''Complete''),
      (''archive'', ''Archived''),
      (''archived'', ''Archived''),
      (''hot'', ''Hot''),
      (''cold'', ''Cold'')]"

text \<open>
  The table is an object literal, so a key that the literal does not define is looked up
  in \<open>Object.prototype\<close>. These are the properties found there.
\<close>

definition object_prototype_keys :: "string list" where
  "object_prototype_keys =
     [''constructor'', ''__defineGetter__'', ''__defineSetter__'', ''hasOwnProperty'',
      ''__lookupGetter__'', ''__lookupSetter__'', ''isPrototypeOf'', ''propertyIsEnumerable'',
      ''toString'', ''valueOf'', ''__proto__'', ''toLocaleString'']"

definition object_get :: "(string \<times> string) list \<Rightarrow> string \<Rightarrow> jsvalue" where
  "object_get m k =
     (case map_of m k of
        Some v \<Rightarrow> JStr v
      | None \<Rightarrow> if k \<in> set object_prototype_keys then JNative k else JUndefined)"

definition cleanBidStatus :: "string option \<Rightarrow> jsvalue" where
  "cleanBidStatus s =
     (let v = toLowerCase (trim (str_or_empty s));
          hit = object_get bid_status_map v
      in if nullish hit then JStr ''Active'' else hit)"

subsection \<open>cleanStatus\<close>

definition cleanStatus :: "string option \<Rightarrow> string option" where
  "cleanStatus s =
     (let v = trim (str_or_empty s)
      in if v = [] then None
         else let norm = toLowerCase v
              in if norm \<in> set [''pending'', ''won'', ''lost'']
                 then Some (upper_char (hd norm) # tl norm)
                 else None)"

subsection \<open>toNumberOrZero\<close>

definition strip_separators :: "string \<Rightarrow> string" where
  "strip_separators s = filter (\<lambda>c. c \<noteq> CHR '','' \<and> c \<noteq> CHR '' '') s"

text \<open>
  For a number \<open>x\<close> the text \<open>String(x)\<close> holds no comma and no space, and
  \<open>Number(String(x))\<close> is \<open>x\<close> again; that case is written out, so that it does not
  depend on how a number is printed. For any other value \<open>String\<close> may throw.
\<close>

definition toNumberOrZero :: "jsvalue \<Rightarrow> failure + jsnum" where
  "toNumberOrZero x =
     and_then (case x of
                 JNum m \<Rightarrow> Inr m
               | _ \<Rightarrow> and_then (js_String (coalesce x (JStr [])))
                                (\<lambda>t. Inr (StringToNumber (strip_separators t))))
       (\<lambda>n. Inr (if isFinite n then n else Fin 0))"

text \<open>
  The import applies \<open>toNumberOrZero\<close> to a cell of a row (a string, or \<open>undefined\<close>) and
  to the cost of a scope draft (a number). \<open>String\<close> throws for neither, so both calls
  return (lemmas \<open>toNumberOrZero_cell\<close> and \<open>toNumberOrZero_number\<close>); \<open>returned\<close> is
  the number that such a call returns.
\<close>

definition returned :: "failure + jsnum \<Rightarrow> jsnum" where
  "returned r = (case r of Inr n \<Rightarrow> n | Inl e \<Rightarrow> NaN)"

subsection \<open>parseDateLoose\<close>

text \<open>The test \<open>/^\d{4}-\d{2}-\d{2}/\<close>.\<close>

definition iso_prefix :: "string \<Rightarrow> bool" where
  "iso_prefix t \<longleftrightarrow>
     10 \<le> length t
     \<and> list_all is_digit (take 4 t) \<and> t ! 4 = CHR ''-''
     \<and> list_all is_digit (take 2 (drop 5 t)) \<and> t ! 7 = CHR ''-''
     \<and> list_all is_digit (take 2 (drop 8 t))"

definition is_date_sep :: "char \<Rightarrow> bool" where
  "is_date_sep c \<longleftrightarrow> c = CHR ''/'' \<or> c = CHR ''-''"

text \<open>
  The match \<open>/^(\d{1,2})[\/-](\d{1,2})[\/-](\d{4})$/\<close>, giving the three groups. A
  separator is not a digit, so each group is a maximal run of digits.
\<close>

definition match_dmy :: "string \<Rightarrow> (string \<times> string \<times> string) option" where
  "match_dmy t =
     (let a = takeWhile is_digit t; r1 = dropWhile is_digit t
      in if \<not> (1 \<le> length a \<and> length a \<le> 2) \<or> r1 = [] \<or> \<not> is_date_sep (hd r1) then None
         else
           let b = takeWhile is_digit (tl r1); r2 = dropWhile is_digit (tl r1)
           in if \<not> (1 \<le> length b \<and> length b \<le> 2) \<or> r2 = [] \<or> \<not> is_date_sep (hd r2) then None
              else
                let y = tl r2
                in if length y = 4 \<and> list_all is_digit y then Some (a, b, y) else None)"

text \<open>
  \<open>new Date(text)\<close> on a string is the engine's own parser; it is the parameter \<open>dp\<close>,
  which gives the time value, or \<open>None\<close> for an invalid Date. The result of
  \<open>parseDateLoose\<close> is \<open>None\<close> for \<open>null\<close> and the time value of the Date otherwise.
\<close>

definition parseDateLoose :: "(string \<Rightarrow> int option) \<Rightarrow> string option \<Rightarrow> int option" where
  "parseDateLoose dp s =
     (if s = None \<or> s = Some [] then None
      else
        let t = trim (str_or_empty s)
        in if iso_prefix t then dp t
           else case match_dmy t of
                  Some (m1, m2, m3) \<Rightarrow>
                    let a = int (digits_val m1);
                        b = int (digits_val m2);
                        y = int (digits_val m3);
                        day = a;
                        month = b
                    in Date_UTC y (month - 1) day
                | None \<Rightarrow> dp t)"

section \<open>Bulk import: grouping\<close>

record row =
  r_projectName :: "string option"
  r_clientCompany :: "string option"
  r_contactName :: "string option"
  r_proposalDate :: "string option"
  r_dueDate :: "string option"
  r_jobLocation :: "string option"
  r_leadSource :: "string option"
  r_bidStatus :: "string option"
  r_scopeName :: "string option"
  r_scopeCost :: "string option"
  r_scopeStatus :: "string option"

record draft =
  d_name :: string
  d_cost :: jsnum
  d_status :: "string option"

record group =
  g_projectName :: string
  g_clientCompany :: string
  g_contactName :: "string option"
  g_proposalDate :: string
  g_dueDate :: string
  g_jobLocation :: "string option"
  g_leadSource :: "string option"
  g_bidStatus :: jsvalue
  g_scopes :: "draft list"

text \<open>\<open>String(x ?? '').trim()\<close> and \<open>String(x ?? '').trim() || null\<close>\<close>

definition trimmed :: "string option \<Rightarrow> string" where
  "trimmed x = trim (str_or_empty x)"

definition trimmed_or_null :: "string option \<Rightarrow> string option" where
  "trimmed_or_null x = (let v = trimmed x in if v = [] then None else Some v)"

definition opt_value :: "string option \<Rightarrow> jsvalue" where
  "opt_value x = (case x of None \<Rightarrow> JUndefined | Some s \<Rightarrow> JStr s)"

definition group_key :: "string \<Rightarrow> string \<Rightarrow> string" where
  "group_key projectName clientCompany = projectName @ ''||'' @ clientCompany"

definition new_group :: "row \<Rightarrow> group" where
  "new_group r =
     \<lparr> g_projectName = trimmed (r_projectName r),
       g_clientCompany = trimmed (r_clientCompany r),
       g_contactName = trimmed_or_null (r_contactName r),
       g_proposalDate = trimmed (r_proposalDate r),
       g_dueDate = trimmed (r_dueDate r),
       g_jobLocation = trimmed_or_null (r_jobLocation r),
       g_leadSource = trimmed_or_null (r_leadSource r),
       g_bidStatus = cleanBidStatus (r_bidStatus r),
       g_scopes = [] \<rparr>"

definition elevate :: "row \<Rightarrow> group \<Rightarrow> group" where
  "elevate r g =
     (let incomingStatus = cleanBidStatus (r_bidStatus r);
          cur = g_bidStatus g
      in if cur = JStr ''Active'' \<and> incomingStatus \<noteq> JStr ''Active''
         then g\<lparr>g_bidStatus := incomingStatus\<rparr> else g)"

definition scope_draft :: "row \<Rightarrow> draft" where
  "scope_draft r =
     \<lparr> d_name = trimmed (r_scopeName r),
       d_cost = returned (toNumberOrZero (opt_value (r_scopeCost r))),
       d_status = cleanStatus (r_scopeStatus r) \<rparr>"

text \<open>
  \<open>grouped\<close> is an object used as a dictionary: its keys in insertion order, each once.
  Every key holds \<open>||\<close>, so none is an array index or a property of \<open>Object.prototype\<close>.
\<close>

definition modify :: "string \<Rightarrow> (group \<Rightarrow> group) \<Rightarrow> (string \<times> group) list \<Rightarrow> (string \<times> group) list" where
  "modify key f grouped = map (\<lambda>(k, g). if k = key then (k, f g) else (k, g)) grouped"

definition group_step :: "(string \<times> group) list \<Rightarrow> row \<Rightarrow> (string \<times> group) list" where
  "group_step grouped r =
     (let projectName = trimmed (r_projectName r);
          clientCompany = trimmed (r_clientCompany r)
      in if projectName = [] \<or> clientCompany = [] then grouped
         else
           let key = group_key projectName clientCompany;
               grouped1 = (case map_of grouped key of
                             None \<Rightarrow> grouped @ [(key, new_group r)]
                           | Some g \<Rightarrow> modify key (elevate r) grouped)
           in modify key (\<lambda>g. g\<lparr>g_scopes := g_scopes g @ [scope_draft r]\<rparr>) grouped1)"

definition group_rows :: "row list \<Rightarrow> (string \<times> group) list" where
  "group_rows rows = foldl group_step [] rows"

section \<open>Storage\<close>

text \<open>
  Modelled from the spec: the storage layer (the Prisma client and its schema, which are
  not part of the routes). Sections 3 and 6 of the specification give the entities, their
  required and optional fields, exact-match lookups, creation with fresh identifiers and
  atomic multi-statement transactions. Tables are lists in insertion order. A write that
  the schema rejects returns an error and leaves the tables as they were.
\<close>

record company =
  c_id :: int
  c_name :: string

record contact =
  ct_id :: int
  ct_name :: string
  ct_companyId :: int

record scope =
  s_id :: int
  s_bidId :: int
  s_name :: string
  s_cost :: jsnum
  s_status :: string

record bid =
  b_id :: int
  b_projectName :: string
  b_clientCompanyId :: int
  b_contactId :: "int option"
  b_proposalDate :: "int option"
  b_dueDate :: "int option"
  b_followUpOn :: "int option"
  b_jobLocation :: "string option"
  b_leadSource :: "string option"
  b_bidStatus :: string

record child =
  ch_id :: int
  ch_bidId :: int

record db =
  companies :: "company list"
  contacts :: "contact list"
  bids :: "bid list"
  scopes :: "scope list"
  noteRows :: "child list"
  attachments :: "child list"
  bidTags :: "child list"

record scope_in =
  si_name :: string
  si_cost :: jsnum
  si_status :: string

record bid_data =
  bd_projectName :: string
  bd_clientCompanyId :: jsvalue
  bd_contactId :: jsvalue
  bd_proposalDate :: jsvalue
  bd_dueDate :: jsvalue
  bd_followUpOn :: jsvalue
  bd_jobLocation :: jsvalue
  bd_leadSource :: jsvalue
  bd_bidStatus :: jsvalue
  bd_scopes :: "scope_in list"

definition bid_status_names :: "string list" where
  "bid_status_names = [''Active'', ''Complete'', ''Archived'', ''Hot'', ''Cold'']"

definition as_int :: "jsvalue \<Rightarrow> int option" where
  "as_int v = (case v of JNum (Fin q) \<Rightarrow> if of_int \<lfloor>q\<rfloor> = q then Some \<lfloor>q\<rfloor> else None | _ \<Rightarrow> None)"

definition next_id :: "int list \<Rightarrow> int" where
  "next_id ids = foldr max ids 0 + 1"

subsection \<open>Field checks of the schema\<close>

definition check_ref :: "string \<Rightarrow> int list \<Rightarrow> jsvalue \<Rightarrow> store_error option" where
  "check_ref field ids v =
     (case as_int v of
        None \<Rightarrow> Some (ValidationError field)
      | Some i \<Rightarrow> if i \<in> set ids then None else Some (ForeignKeyViolation field))"

definition check_date :: "string \<Rightarrow> jsvalue \<Rightarrow> store_error option" where
  "check_date field v =
     (case v of
        JUndefined \<Rightarrow> None
      | JNull \<Rightarrow> None
      | JDate (Some t) \<Rightarrow> None
      | _ \<Rightarrow> Some (ValidationError field))"

definition check_text :: "string \<Rightarrow> jsvalue \<Rightarrow> store_error option" where
  "check_text field v =
     (case v of
        JUndefined \<Rightarrow> None
      | JNull \<Rightarrow> None
      | JStr s \<Rightarrow> None
      | _ \<Rightarrow> Some (ValidationError field))"

definition check_status :: "jsvalue \<Rightarrow> store_error option" where
  "check_status v =
     (case v of
        JUndefined \<Rightarrow> None
      | JStr s \<Rightarrow> if s \<in> set bid_status_names then None else Some (ValidationError ''bidStatus'')
      | _ \<Rightarrow> Some (ValidationError ''bidStatus''))"

fun first_error :: "store_error option list \<Rightarrow> store_error option" where
  "first_error [] = None"
| "first_error (None # es) = first_error es"
| "first_error (Some e # es) = Some e"

text \<open>On creation the owning company is required; on update an undefined field is left
  as it is.\<close>

definition check_data :: "bool \<Rightarrow> db \<Rightarrow> bid_data \<Rightarrow> store_error option" where
  "check_data creating d data =
     first_error
       [if bd_clientCompanyId data = JUndefined \<and> \<not> creating then None
        else check_ref ''clientCompanyId'' (map c_id (companies d)) (bd_clientCompanyId data),
        if nullish (bd_contactId data) then None
        else check_ref ''contactId'' (map ct_id (contacts d)) (bd_contactId data),
        check_date ''proposalDate'' (bd_proposalDate data),
        check_date ''dueDate'' (bd_dueDate data),
        check_date ''followUpOn'' (bd_followUpOn data),
        check_text ''jobLocation'' (bd_jobLocation data),
        check_text ''leadSource'' (bd_leadSource data),
        check_status (bd_bidStatus data)]"

subsection \<open>Writing a bid\<close>

definition set_int :: "jsvalue \<Rightarrow> int \<Rightarrow> int" where
  "set_int v old = (case as_int v of Some i \<Rightarrow> i | None \<Rightarrow> old)"

definition set_opt_int :: "jsvalue \<Rightarrow> int option \<Rightarrow> int option" where
  "set_opt_int v old = (if v = JUndefined then old else as_int v)"

definition set_date :: "jsvalue \<Rightarrow> int option \<Rightarrow> int option" where
  "set_date v old = (case v of JUndefined \<Rightarrow> old | JDate t \<Rightarrow> t | _ \<Rightarrow> None)"

definition set_text :: "jsvalue \<Rightarrow> string option \<Rightarrow> string option" where
  "set_text v old = (case v of JUndefined \<Rightarrow> old | JStr s \<Rightarrow> Some s | _ \<Rightarrow> None)"

definition set_status :: "jsvalue \<Rightarrow> string \<Rightarrow> string" where
  "set_status v old = (case v of JStr s \<Rightarrow> s | _ \<Rightarrow> old)"

definition write_fields :: "bid_data \<Rightarrow> bid \<Rightarrow> bid" where
  "write_fields data b =
     b\<lparr> b_projectName := bd_projectName data,
        b_clientCompanyId := set_int (bd_clientCompanyId data) (b_clientCompanyId b),
        b_contactId := set_opt_int (bd_contactId data) (b_contactId b),
        b_proposalDate := set_date (bd_proposalDate data) (b_proposalDate b),
        b_dueDate := set_date (bd_dueDate data) (b_dueDate b),
        b_followUpOn := set_date (bd_followUpOn data) (b_followUpOn b),
        b_jobLocation := set_text (bd_jobLocation data) (b_jobLocation b),
        b_leadSource := set_text (bd_leadSource data) (b_leadSource b),
        b_bidStatus := set_status (bd_bidStatus data) (b_bidStatus b) \<rparr>"

text \<open>A bid as the schema fills it before any field is given: no optional field, status
  \<open>Active\<close>.\<close>

definition blank_bid :: "int \<Rightarrow> bid" where
  "blank_bid i =
     \<lparr> b_id = i, b_projectName = [], b_clientCompanyId = 0, b_contactId = None,
       b_proposalDate = None, b_dueDate = None, b_followUpOn = None,
       b_jobLocation = None, b_leadSource = None, b_bidStatus = ''Active'' \<rparr>"

fun number_scopes :: "int \<Rightarrow> int \<Rightarrow> scope_in list \<Rightarrow> scope list" where
  "number_scopes i bidId [] = []"
| "number_scopes i bidId (x # xs) =
     \<lparr> s_id = i, s_bidId = bidId, s_name = si_name x, s_cost = si_cost x, s_status = si_status x \<rparr>
       # number_scopes (i + 1) bidId xs"

definition create_scopes :: "int \<Rightarrow> scope_in list \<Rightarrow> db \<Rightarrow> db" where
  "create_scopes bidId xs d =
     d\<lparr>scopes := scopes d @ number_scopes (next_id (map s_id (scopes d))) bidId xs\<rparr>"

definition scopes_of :: "int \<Rightarrow> db \<Rightarrow> scope list" where
  "scopes_of bidId d = filter (\<lambda>s. s_bidId s = bidId) (scopes d)"

text \<open>\<open>prisma.bid.create\<close> with nested scope creation: the bid and its scopes, or nothing.\<close>

definition bid_create :: "bid_data \<Rightarrow> db \<Rightarrow> store_error + (bid \<times> db)" where
  "bid_create data d =
     (case check_data True d data of
        Some e \<Rightarrow> Inl e
      | None \<Rightarrow>
          let b = write_fields data (blank_bid (next_id (map b_id (bids d))))
          in Inr (b, create_scopes (b_id b) (bd_scopes data) (d\<lparr>bids := bids d @ [b]\<rparr>)))"

definition bid_findUnique :: "int \<Rightarrow> db \<Rightarrow> bid option" where
  "bid_findUnique i d = find (\<lambda>b. b_id b = i) (bids d)"

text \<open>\<open>prisma.bid.update\<close> with nested scope creation.\<close>

definition bid_update :: "int \<Rightarrow> bid_data \<Rightarrow> db \<Rightarrow> store_error + (bid \<times> db)" where
  "bid_update i data d =
     (case bid_findUnique i d of
        None \<Rightarrow> Inl RecordNotFound
      | Some old \<Rightarrow>
          (case check_data False d data of
             Some e \<Rightarrow> Inl e
           | None \<Rightarrow>
               let b = write_fields data old
               in Inr (b, create_scopes i (bd_scopes data)
                            (d\<lparr>bids := map (\<lambda>x. if b_id x = i then b else x) (bids d)\<rparr>))))"

definition scope_deleteMany :: "int \<Rightarrow> db \<Rightarrow> db" where
  "scope_deleteMany bidId d = d\<lparr>scopes := filter (\<lambda>s. s_bidId s \<noteq> bidId) (scopes d)\<rparr>"

subsection \<open>Companies and contacts\<close>

definition company_findFirst :: "string \<Rightarrow> db \<Rightarrow> company option" where
  "company_findFirst name d = find (\<lambda>c. c_name c = name) (companies d)"

definition company_create :: "string \<Rightarrow> db \<Rightarrow> company \<times> db" where
  "company_create name d =
     (let c = \<lparr> c_id = next_id (map c_id (companies d)), c_name = name \<rparr>
      in (c, d\<lparr>companies := companies d @ [c]\<rparr>))"

definition contact_findFirst :: "string \<Rightarrow> int \<Rightarrow> db \<Rightarrow> contact option" where
  "contact_findFirst name companyId d =
     find (\<lambda>c. ct_name c = name \<and> ct_companyId c = companyId) (contacts d)"

definition contact_create :: "string \<Rightarrow> int \<Rightarrow> db \<Rightarrow> contact \<times> db" where
  "contact_create name companyId d =
     (let c = \<lparr> ct_id = next_id (map ct_id (contacts d)), ct_name = name, ct_companyId = companyId \<rparr>
      in (c, d\<lparr>contacts := contacts d @ [c]\<rparr>))"

section \<open>Bulk import: committing the groups\<close>

datatype message = Text string | StorageMessage store_error

definition dquote :: string where
  "dquote = [CHR 0x22]"

definition invalid_dates_message :: "group \<Rightarrow> string" where
  "invalid_dates_message g =
     ''Invalid date(s). proposalDate='' @ dquote @ g_proposalDate g @ dquote
       @ '' dueDate='' @ dquote @ g_dueDate g @ dquote
       @ ''. Use YYYY-MM-DD or DD/MM/YYYY.''"

definition scopeCreates :: "group \<Rightarrow> scope_in list" where
  "scopeCreates g =
     map (\<lambda>s. \<lparr> si_name = d_name s,
                si_cost = returned (toNumberOrZero (JNum (d_cost s))),
                si_status = (case cleanStatus (d_status s) of None \<Rightarrow> ''Pending'' | Some v \<Rightarrow> v) \<rparr>)
         (filter (\<lambda>s. d_name s \<noteq> []) (g_scopes g))"

definition or_default :: "jsvalue \<Rightarrow> jsvalue \<Rightarrow> jsvalue" where
  "or_default a b = (if truthy a then a else b)"

definition import_bid_data :: "group \<Rightarrow> int \<Rightarrow> int option \<Rightarrow> int \<Rightarrow> int \<Rightarrow> bid_data" where
  "import_bid_data g companyId contactId proposalDate dueDate =
     \<lparr> bd_projectName = g_projectName g,
       bd_clientCompanyId = JNum (Fin (of_int companyId)),
       bd_contactId = (case contactId of None \<Rightarrow> JNull | Some i \<Rightarrow> JNum (Fin (of_int i))),
       bd_proposalDate = JDate (Some proposalDate),
       bd_dueDate = JDate (Some dueDate),
       bd_followUpOn = JUndefined,
       bd_jobLocation = (case g_jobLocation g of None \<Rightarrow> JNull | Some v \<Rightarrow> JStr v),
       bd_leadSource = (case g_leadSource g of None \<Rightarrow> JNull | Some v \<Rightarrow> JStr v),
       bd_bidStatus = or_default (g_bidStatus g) (JStr ''Active''),
       bd_scopes = scopeCreates g \<rparr>"

definition upsert_company :: "string \<Rightarrow> db \<Rightarrow> company \<times> db" where
  "upsert_company name d =
     (case company_findFirst name d of Some c \<Rightarrow> (c, d) | None \<Rightarrow> company_create name d)"

definition upsert_contact :: "string option \<Rightarrow> int \<Rightarrow> db \<Rightarrow> int option \<times> db" where
  "upsert_contact contactName companyId d =
     (case contactName of
        None \<Rightarrow> (None, d)
      | Some n \<Rightarrow>
          (case contact_findFirst n companyId d of
             Some c \<Rightarrow> (Some (ct_id c), d)
           | None \<Rightarrow> (let (c, d') = contact_create n companyId d in (Some (ct_id c), d'))))"

text \<open>The body of the \<open>try\<close> block for one group: the error that is caught, or the bid that
  was created, and the tables afterwards.\<close>

definition commit_group :: "(string \<Rightarrow> int option) \<Rightarrow> group \<Rightarrow> db \<Rightarrow> (message + bid) \<times> db" where
  "commit_group dp g d =
     (case (parseDateLoose dp (Some (g_proposalDate g)), parseDateLoose dp (Some (g_dueDate g))) of
        (Some proposalDate, Some dueDate) \<Rightarrow>
          (let (company, d1) = upsert_company (g_clientCompany g) d;
               (contactId, d2) = upsert_contact (g_contactName g) (c_id company) d1
           in case bid_create (import_bid_data g (c_id company) contactId proposalDate dueDate) d2 of
                Inl e \<Rightarrow> (Inl (StorageMessage e), d2)
              | Inr (created, d3) \<Rightarrow> (Inr created, d3))
      | _ \<Rightarrow> (Inl (Text (invalid_dates_message g)), d))"

record import_state =
  st_results :: "bid list"
  st_errors :: "(string \<times> message) list"
  st_store :: db

definition commit_step :: "(string \<Rightarrow> int option) \<Rightarrow> import_state \<Rightarrow> string \<times> group \<Rightarrow> import_state" where
  "commit_step dp st kg =
     (case commit_group dp (snd kg) (st_store st) of
        (Inr created, d') \<Rightarrow> st\<lparr>st_results := st_results st @ [created], st_store := d'\<rparr>
      | (Inl m, d') \<Rightarrow> st\<lparr>st_errors := st_errors st @ [(fst kg, m)], st_store := d'\<rparr>)"

definition commit_groups :: "(string \<Rightarrow> int option) \<Rightarrow> (string \<times> group) list \<Rightarrow> db \<Rightarrow> import_state" where
  "commit_groups dp grouped d = foldl (commit_step dp) \<lparr> st_results = [], st_errors = [], st_store = d \<rparr> grouped"

datatype import_response =
    NoFile
  | Imported nat "(string \<times> message) list"

text \<open>The route \<open>POST /bids\<close> of the importer; \<open>file\<close> holds the rows that the decoder
  reads from the upload, \<open>None\<close> when nothing was uploaded.\<close>

definition import_bids :: "(string \<Rightarrow> int option) \<Rightarrow> row list option \<Rightarrow> db \<Rightarrow> import_response \<times> db" where
  "import_bids dp file d =
     (case file of
        None \<Rightarrow> (NoFile, d)
      | Some rows \<Rightarrow>
          let st = commit_groups dp (group_rows rows) d
          in (Imported (length (st_results st)) (st_errors st), st_store st))"

section \<open>Bid routes\<close>

subsection \<open>Requests and responses\<close>

datatype Role = ADMIN | MANAGER | ESTIMATOR | VIEWER

datatype Action = Read | Create | Update | Delete

record user =
  u_id :: int
  u_role :: Role

record request =
  req_user :: "user option"
  req_id :: string
  req_body :: jsvalue

text \<open>A response: a status with a JSON body, a status alone, or an error handed to
  \<open>next\<close>.\<close>

datatype response =
    Reply nat jsvalue
  | End nat
  | NextError failure

type_synonym handler = "db \<Rightarrow> response \<times> db"

definition error_body :: "string \<Rightarrow> jsvalue" where
  "error_body m = JObj [(''error'', JStr m)]"

subsection \<open>Permission helpers\<close>

fun ROLE_PERMS :: "Role \<Rightarrow> Action list" where
  "ROLE_PERMS ADMIN = [Read, Create, Update, Delete]"
| "ROLE_PERMS MANAGER = [Read, Create, Update]"
| "ROLE_PERMS ESTIMATOR = [Read, Create, Update, Delete]"
| "ROLE_PERMS VIEWER = [Read]"

definition role_of :: "request \<Rightarrow> Role option" where
  "role_of req = map_option u_role (req_user req)"

definition can :: "request \<Rightarrow> Action \<Rightarrow> bool" where
  "can req action =
     (case role_of req of
        None \<Rightarrow> False
      | Some role \<Rightarrow> action \<in> set (ROLE_PERMS role))"

definition requirePerm :: "Action \<Rightarrow> request \<Rightarrow> handler \<Rightarrow> handler" where
  "requirePerm action req next =
     (if \<not> can req action then (\<lambda>d. (Reply 403 (error_body ''Forbidden''), d)) else next)"

text \<open>
  Modelled from the spec: \<open>requireRole\<close> of the permissions middleware, which the routes
  import. Section 4.4: the check denies with \<open>Forbidden\<close> if the caller's role is
  absent or is not among the roles allowed for the action, before any data access.
\<close>

definition requireRole :: "Role list \<Rightarrow> request \<Rightarrow> handler \<Rightarrow> handler" where
  "requireRole roles req next =
     (case role_of req of
        None \<Rightarrow> (\<lambda>d. (Reply 403 (error_body ''Forbidden''), d))
      | Some role \<Rightarrow>
          if role \<in> set roles then next
          else (\<lambda>d. (Reply 403 (error_body ''Forbidden''), d)))"

subsection \<open>Objects and JSON\<close>

text \<open>\<open>{ ...row, k: v }\<close>: an own key keeps its place, a new key goes last.\<close>

definition obj_set :: "string \<Rightarrow> jsvalue \<Rightarrow> (string \<times> jsvalue) list \<Rightarrow> (string \<times> jsvalue) list" where
  "obj_set k v kvs =
     (if k \<in> fst ` set kvs then map (\<lambda>(k', v'). if k' = k then (k', v) else (k', v')) kvs
      else kvs @ [(k, v)])"

text \<open>Reading a property of a parsed JSON value. Reading from \<open>null\<close> or \<open>undefined\<close>
  throws; an object answers from its own keys, then from \<open>Object.prototype\<close>; the other
  values have none of the properties that the routes read.\<close>

definition get_prop :: "jsvalue \<Rightarrow> string \<Rightarrow> failure + jsvalue" where
  "get_prop v k =
     (case v of
        JUndefined \<Rightarrow> Inl TypeError
      | JNull \<Rightarrow> Inl TypeError
      | JObj kvs \<Rightarrow>
          (case map_of kvs k of
             Some x \<Rightarrow> Inr x
           | None \<Rightarrow> Inr (if k \<in> set object_prototype_keys then JNative k else JUndefined))
      | _ \<Rightarrow> Inr JUndefined)"

definition is_function :: "jsvalue \<Rightarrow> bool" where
  "is_function v \<longleftrightarrow> (case v of JNative k \<Rightarrow> k \<noteq> ''__proto__'' | _ \<Rightarrow> False)"

text \<open>
  \<open>res.json(v)\<close>, as the client parses it: a member that is \<open>undefined\<close> or a function is
  left out of an object and is \<open>null\<close> in an array; a number that is not finite and an
  invalid Date are \<open>null\<close>. A valid Date is kept as its time value (its text form is not
  modelled).
\<close>

fun json :: "jsvalue \<Rightarrow> jsvalue" where
  "json (JObj kvs) =
     JObj (map (\<lambda>(k, v). (k, json v)) (filter (\<lambda>(k, v). v \<noteq> JUndefined \<and> \<not> is_function v) kvs))"
| "json (JArr xs) =
     JArr (map (\<lambda>x. if x = JUndefined \<or> is_function x then JNull else json x) xs)"
| "json (JNum n) = (if isFinite n then JNum n else JNull)"
| "json (JDate t) = (case t of None \<Rightarrow> JNull | Some ms \<Rightarrow> JDate (Some ms))"
| "json (JNative k) = (if k = ''__proto__'' then JObj [] else JUndefined)"
| "json v = v"

declare json.simps [simp del]

definition field :: "jsvalue \<Rightarrow> string \<Rightarrow> jsvalue option" where
  "field v k = (case v of JObj kvs \<Rightarrow> map_of kvs k | _ \<Rightarrow> None)"

subsection \<open>Records as objects\<close>

definition int_value :: "int \<Rightarrow> jsvalue" where
  "int_value i = JNum (Fin (of_int i))"

definition opt_int_value :: "int option \<Rightarrow> jsvalue" where
  "opt_int_value x = (case x of None \<Rightarrow> JNull | Some i \<Rightarrow> int_value i)"

definition opt_date_value :: "int option \<Rightarrow> jsvalue" where
  "opt_date_value x = (case x of None \<Rightarrow> JNull | Some t \<Rightarrow> JDate (Some t))"

definition opt_text_value :: "string option \<Rightarrow> jsvalue" where
  "opt_text_value x = (case x of None \<Rightarrow> JNull | Some t \<Rightarrow> JStr t)"

definition scope_object :: "scope \<Rightarrow> jsvalue" where
  "scope_object x =
     JObj [(''id'', int_value (s_id x)), (''bidId'', int_value (s_bidId x)),
           (''name'', JStr (s_name x)), (''cost'', JNum (s_cost x)), (''status'', JStr (s_status x))]"

definition company_object :: "company \<Rightarrow> jsvalue" where
  "company_object c = JObj [(''id'', int_value (c_id c)), (''name'', JStr (c_name c))]"

definition contact_object :: "contact \<Rightarrow> jsvalue" where
  "contact_object c =
     JObj [(''id'', int_value (ct_id c)), (''name'', JStr (ct_name c)),
           (''companyId'', int_value (ct_companyId c))]"

definition child_object :: "child \<Rightarrow> jsvalue" where
  "child_object c = JObj [(''id'', int_value (ch_id c)), (''bidId'', int_value (ch_bidId c))]"

text \<open>The columns of a bid (the time stamps of creation and update are not modelled).\<close>

definition bid_columns :: "bid \<Rightarrow> (string \<times> jsvalue) list" where
  "bid_columns b =
     [(''id'', int_value (b_id b)),
      (''projectName'', JStr (b_projectName b)),
      (''clientCompanyId'', int_value (b_clientCompanyId b)),
      (''contactId'', opt_int_value (b_contactId b)),
      (''proposalDate'', opt_date_value (b_proposalDate b)),
      (''dueDate'', opt_date_value (b_dueDate b)),
      (''followUpOn'', opt_date_value (b_followUpOn b)),
      (''jobLocation'', opt_text_value (b_jobLocation b)),
      (''leadSource'', opt_text_value (b_leadSource b)),
      (''bidStatus'', JStr (b_bidStatus b))]"

definition company_of :: "bid \<Rightarrow> db \<Rightarrow> company option" where
  "company_of b d = find (\<lambda>c. c_id c = b_clientCompanyId b) (companies d)"

definition contact_of :: "bid \<Rightarrow> db \<Rightarrow> contact option" where
  "contact_of b d =
     (case b_contactId b of None \<Rightarrow> None | Some i \<Rightarrow> find (\<lambda>c. ct_id c = i) (contacts d))"

text \<open>A bid with \<open>include: { scopes: true }\<close>.\<close>

definition bid_with_scopes :: "bid \<Rightarrow> db \<Rightarrow> (string \<times> jsvalue) list" where
  "bid_with_scopes b d =
     bid_columns b @ [(''scopes'', JArr (map scope_object (scopes_of (b_id b) d)))]"

text \<open>A bid with the relations that \<open>GET /bids/:id\<close> includes.\<close>

definition bid_with_relations :: "bid \<Rightarrow> db \<Rightarrow> (string \<times> jsvalue) list" where
  "bid_with_relations b d =
     bid_columns b @
     [(''clientCompany'', (case company_of b d of None \<Rightarrow> JNull | Some c \<Rightarrow> company_object c)),
      (''contact'', (case contact_of b d of None \<Rightarrow> JNull | Some c \<Rightarrow> contact_object c)),
      (''scopes'', JArr (map scope_object (scopes_of (b_id b) d))),
      (''notes'', JArr (map child_object (filter (\<lambda>c. ch_bidId c = b_id b) (noteRows d)))),
      (''tags'', JArr (map child_object (filter (\<lambda>c. ch_bidId c = b_id b) (bidTags d)))),
      (''attachments'', JArr (map child_object (filter (\<lambda>c. ch_bidId c = b_id b) (attachments d))))]"

subsection \<open>Redaction\<close>

definition redactForViewer :: "request \<Rightarrow> (string \<times> jsvalue) list list \<Rightarrow> (string \<times> jsvalue) list list" where
  "redactForViewer req rows =
     (if role_of req \<noteq> Some VIEWER then rows
      else map (\<lambda>row. obj_set ''scopes'' JUndefined (obj_set ''amount'' JNull row)) rows)"

subsection \<open>Helpers\<close>

text \<open>\<open>new Date(v)\<close>: a Date is copied; a string goes to the engine's parser \<open>dp\<close>;
  any other object is made a primitive, which is its text or a \<open>TypeError\<close>, and the text
  goes to the parser; any other primitive goes through its number.\<close>

definition trunc :: "rat \<Rightarrow> int" where
  "trunc q = (if 0 \<le> q then \<lfloor>q\<rfloor> else \<lceil>q\<rceil>)"

definition time_of_number :: "jsnum \<Rightarrow> int option" where
  "time_of_number n = (case n of Fin q \<Rightarrow> TimeClip (trunc q) | _ \<Rightarrow> None)"

definition Date_new :: "(string \<Rightarrow> int option) \<Rightarrow> jsvalue \<Rightarrow> failure + int option" where
  "Date_new dp v =
     (case v of
        JStr s \<Rightarrow> Inr (dp s)
      | JDate t \<Rightarrow> Inr t
      | JArr xs \<Rightarrow> and_then (js_String v) (\<lambda>t. Inr (dp t))
      | JObj kvs \<Rightarrow> and_then (js_String v) (\<lambda>t. Inr (dp t))
      | JNative k \<Rightarrow> and_then (js_String v) (\<lambda>t. Inr (dp t))
      | _ \<Rightarrow> and_then (js_Number v) (\<lambda>n. Inr (time_of_number n)))"

definition parseDateOrNull :: "(string \<Rightarrow> int option) \<Rightarrow> jsvalue \<Rightarrow> failure + jsvalue" where
  "parseDateOrNull dp v =
     (if truthy v then and_then (Date_new dp v) (\<lambda>t. Inr (JDate t)) else Inr JNull)"

definition VALID_SCOPE_STATUS :: "string list" where
  "VALID_SCOPE_STATUS = [''Pending'', ''Won'', ''Lost'']"

definition the_prop :: "jsvalue \<Rightarrow> string \<Rightarrow> jsvalue" where
  "the_prop v k = (case get_prop v k of Inl e \<Rightarrow> JUndefined | Inr x \<Rightarrow> x)"

text \<open>One element of the \<open>map\<close> in \<open>sanitizeScopes\<close>. Reading \<open>s.name\<close> throws when \<open>s\<close>
  is \<open>null\<close> or \<open>undefined\<close>, and each of \<open>String(s.name ?? '')\<close>,
  \<open>Number(s.cost ?? 0)\<close> and \<open>String(s.status)\<close> throws where the conversion does.\<close>

definition sanitize_one :: "jsvalue \<Rightarrow> failure + scope_in" where
  "sanitize_one s =
     (if nullish s then Inl TypeError
      else
        and_then (js_String (coalesce (the_prop s ''name'') (JStr []))) (\<lambda>name.
        and_then (js_Number (coalesce (the_prop s ''cost'') (JNum (Fin 0)))) (\<lambda>n.
        and_then (js_String (the_prop s ''status'')) (\<lambda>status.
          Inr \<lparr> si_name = trim name,
                 si_cost = (if num_truthy n then n else Fin 0),
                 si_status = (if status \<in> set VALID_SCOPE_STATUS then status else ''Pending'') \<rparr>))))"

fun sanitize_all :: "jsvalue list \<Rightarrow> failure + scope_in list" where
  "sanitize_all [] = Inr []"
| "sanitize_all (s # ss) =
     (case sanitize_one s of
        Inl e \<Rightarrow> Inl e
      | Inr x \<Rightarrow> (case sanitize_all ss of Inl e \<Rightarrow> Inl e | Inr xs \<Rightarrow> Inr (x # xs)))"

definition sanitizeScopes :: "jsvalue \<Rightarrow> failure + scope_in list" where
  "sanitizeScopes raw =
     (case raw of
        JArr ss \<Rightarrow>
          (case sanitize_all ss of
             Inl e \<Rightarrow> Inl e
           | Inr xs \<Rightarrow> Inr (filter (\<lambda>x. 0 < length (si_name x)) xs))
      | _ \<Rightarrow> Inr [])"

subsection \<open>GET /bids\<close>

text \<open>The dash that stands for a missing client name (U+2014, here as its UTF-8 bytes).\<close>

definition em_dash :: string where
  "em_dash = [CHR 0xE2, CHR 0x80, CHR 0x94]"

text \<open>
  \<open>totalAmount\<close> and \<open>aggregateScopeStatus\<close> come from the aggregation utilities, which
  the routes import; they are the parameters \<open>ta\<close> and \<open>ag\<close>. The query that
  \<open>findMany\<close> runs for the filters of the request is the parameter \<open>findMany\<close>.
\<close>

definition list_row ::
  "(scope list \<Rightarrow> jsvalue) \<Rightarrow> (scope list \<Rightarrow> jsvalue) \<Rightarrow> db \<Rightarrow> bid \<Rightarrow> (string \<times> jsvalue) list" where
  "list_row ta ag d b =
     [(''id'', int_value (b_id b)),
      (''projectName'', JStr (b_projectName b)),
      (''clientName'', JStr (case company_of b d of None \<Rightarrow> em_dash | Some c \<Rightarrow> c_name c)),
      (''amount'', ta (scopes_of (b_id b) d)),
      (''proposalDate'', opt_date_value (b_proposalDate b)),
      (''dueDate'', opt_date_value (b_dueDate b)),
      (''followUpOn'', opt_date_value (b_followUpOn b)),
      (''scopeStatus'', ag (scopes_of (b_id b) d)),
      (''bidStatus'', JStr (b_bidStatus b))]"

definition list_rows ::
  "(scope list \<Rightarrow> jsvalue) \<Rightarrow> (scope list \<Rightarrow> jsvalue) \<Rightarrow> request \<Rightarrow> db \<Rightarrow> bid list
     \<Rightarrow> (string \<times> jsvalue) list list" where
  "list_rows ta ag req d found = redactForViewer req (map (list_row ta ag d) found)"



subsection \<open>GET /bids/:id\<close>

definition get_handler :: "request \<Rightarrow> handler" where
  "get_handler req d =
     (let id' = StringToNumber (req_id req)
      in if \<not> isFinite id' then (Reply 400 (error_body ''Invalid id''), d)
         else case as_int (JNum id') of
                None \<Rightarrow> (NextError (Storage (ValidationError ''id'')), d)
              | Some i \<Rightarrow>
                  (case bid_findUnique i d of
                     None \<Rightarrow> (Reply 404 (error_body ''Not found''), d)
                   | Some b \<Rightarrow>
                       if role_of req = Some VIEWER
                       then (Reply 200 (json (JObj (obj_set ''scopes'' JUndefined (bid_with_relations b d)))), d)
                       else (Reply 200 (json (JObj (bid_with_relations b d))), d)))"

definition GET_bid :: "request \<Rightarrow> handler" where
  "GET_bid req = requirePerm Read req (get_handler req)"

subsection \<open>POST /bids\<close>

text \<open>The \<open>data\<close> argument of \<open>prisma.bid.create\<close>; its members are evaluated in order,
  and \<open>String\<close> and \<open>new Date\<close> may throw before the storage layer is called.\<close>

definition post_data :: "(string \<Rightarrow> int option) \<Rightarrow> jsvalue \<Rightarrow> scope_in list \<Rightarrow> failure + bid_data" where
  "post_data dp body scopes' =
     and_then (js_String (coalesce (the_prop body ''projectName'') (JStr []))) (\<lambda>projectName.
     and_then (parseDateOrNull dp (the_prop body ''proposalDate'')) (\<lambda>proposalDate.
     and_then (parseDateOrNull dp (the_prop body ''dueDate'')) (\<lambda>dueDate.
     and_then (parseDateOrNull dp (the_prop body ''followUpOn'')) (\<lambda>followUpOn.
       Inr \<lparr> bd_projectName = trim projectName,
              bd_clientCompanyId = the_prop body ''clientCompanyId'',
              bd_contactId = coalesce (the_prop body ''contactId'') JNull,
              bd_proposalDate = proposalDate,
              bd_dueDate = dueDate,
              bd_followUpOn = followUpOn,
              bd_jobLocation = coalesce (the_prop body ''jobLocation'') JNull,
              bd_leadSource = coalesce (the_prop body ''leadSource'') JNull,
              bd_bidStatus = the_prop body ''bidStatus'',
              bd_scopes = scopes' \<rparr>))))"

definition post_handler :: "(string \<Rightarrow> int option) \<Rightarrow> request \<Rightarrow> handler" where
  "post_handler dp req d =
     (case get_prop (req_body req) ''scopes'' of
        Inl e \<Rightarrow> (NextError e, d)
      | Inr raw \<Rightarrow>
          (case sanitizeScopes raw of
             Inl e \<Rightarrow> (NextError e, d)
           | Inr scopes' \<Rightarrow>
               (case post_data dp (req_body req) scopes' of
                  Inl e \<Rightarrow> (NextError e, d)
                | Inr data \<Rightarrow>
                    (case bid_create data d of
                       Inl e \<Rightarrow> (NextError (Storage e), d)
                     | Inr (b, d') \<Rightarrow> (Reply 201 (json (JObj (bid_with_scopes b d'))), d')))))"


subsection \<open>PUT /bids/:id\<close>

text \<open>The \<open>data\<close> argument of \<open>prisma.bid.update\<close>. It is evaluated while the list of
  statements is built, so a throw comes before the transaction starts.\<close>

definition put_data :: "(string \<Rightarrow> int option) \<Rightarrow> jsvalue \<Rightarrow> scope_in list \<Rightarrow> failure + bid_data" where
  "put_data dp data scopes' =
     and_then (js_String (coalesce (the_prop data ''projectName'') (JStr []))) (\<lambda>projectName.
     and_then (parseDateOrNull dp (the_prop data ''proposalDate'')) (\<lambda>proposalDate.
     and_then (parseDateOrNull dp (the_prop data ''dueDate'')) (\<lambda>dueDate.
     and_then (parseDateOrNull dp (the_prop data ''followUpOn'')) (\<lambda>followUpOn.
       Inr \<lparr> bd_projectName = trim projectName,
              bd_clientCompanyId = the_prop data ''clientCompanyId'',
              bd_contactId = or_default (the_prop data ''contactId'') JNull,
              bd_proposalDate = proposalDate,
              bd_dueDate = dueDate,
              bd_followUpOn = followUpOn,
              bd_jobLocation = or_default (the_prop data ''jobLocation'') JNull,
              bd_leadSource = or_default (the_prop data ''leadSource'') JNull,
              bd_bidStatus = the_prop data ''bidStatus'',
              bd_scopes = scopes' \<rparr>))))"

text \<open>
  Modelled from the spec: \<open>prisma.$transaction\<close> with a list of two statements (section 5:
  a multi-entity write is one atomic transaction). The statements run in order; if one
  fails, the error is thrown and the tables are as before the first.
\<close>

definition transaction ::
  "(db \<Rightarrow> store_error + 'a \<times> db) \<Rightarrow> (db \<Rightarrow> store_error + 'b \<times> db) \<Rightarrow> db
     \<Rightarrow> (store_error + 'a \<times> 'b) \<times> db" where
  "transaction op1 op2 d =
     (case op1 d of
        Inl e \<Rightarrow> (Inl e, d)
      | Inr (a, d1) \<Rightarrow>
          (case op2 d1 of
             Inl e \<Rightarrow> (Inl e, d)
           | Inr (b, d2) \<Rightarrow> (Inr (a, b), d2)))"

text \<open>The two statements, for an identifier as the route computes it (a number).\<close>

definition delete_scopes_stmt :: "jsnum \<Rightarrow> db \<Rightarrow> store_error + nat \<times> db" where
  "delete_scopes_stmt id' d =
     (case as_int (JNum id') of
        None \<Rightarrow> Inl (ValidationError ''bidId'')
      | Some i \<Rightarrow> Inr (length (scopes_of i d), scope_deleteMany i d))"

definition update_bid_stmt :: "jsnum \<Rightarrow> bid_data \<Rightarrow> db \<Rightarrow> store_error + bid \<times> db" where
  "update_bid_stmt id' data d =
     (case as_int (JNum id') of
        None \<Rightarrow> Inl (ValidationError ''id'')
      | Some i \<Rightarrow> bid_update i data d)"

definition put_handler :: "(string \<Rightarrow> int option) \<Rightarrow> request \<Rightarrow> handler" where
  "put_handler dp req d =
     (let id' = StringToNumber (req_id req)
      in if \<not> isFinite id' then (Reply 400 (error_body ''Invalid id''), d)
         else case get_prop (req_body req) ''scopes'' of
                Inl e \<Rightarrow> (NextError e, d)
              | Inr raw \<Rightarrow>
                  (case sanitizeScopes raw of
                     Inl e \<Rightarrow> (NextError e, d)
                   | Inr scopes' \<Rightarrow>
                       (case put_data dp (req_body req) scopes' of
                          Inl e \<Rightarrow> (NextError e, d)
                        | Inr data \<Rightarrow>
                            (case transaction (delete_scopes_stmt id') (update_bid_stmt id' data) d of
                               (Inl e, d') \<Rightarrow> (NextError (Storage e), d')
                             | (Inr (n, updated), d') \<Rightarrow>
                                 (Reply 200 (json (JObj (bid_with_scopes updated d'))), d')))))"

text \<open>
  The route runs \<open>canAccessBid\<close>, then \<open>requireRole\<close>, then the handler. \<open>canAccessBid\<close>
  comes from the permissions middleware, which is not among the sources. The route is
  given for any such gate: a check that reads the request and the tables and either answers
  itself or calls \<open>next\<close> (\<open>None\<close>).
\<close>

definition PUT_bid ::
  "(request \<Rightarrow> db \<Rightarrow> response option) \<Rightarrow> (string \<Rightarrow> int option) \<Rightarrow> request \<Rightarrow> handler" where
  "PUT_bid gate dp req d =
     (case gate req d of
        Some r \<Rightarrow> (r, d)
      | None \<Rightarrow> requireRole [ADMIN, MANAGER, ESTIMATOR] req (put_handler dp req) d)"


subsection \<open>DELETE /bids/:id\<close>





subsection \<open>The router\<close>




section \<open>Vocabulary of the properties\<close>

subsection \<open>Grouping\<close>

text \<open>The key under which a row is grouped, \<open>None\<close> for a row that the loop skips.\<close>

definition row_key :: "row \<Rightarrow> string option" where
  "row_key r =
     (let projectName = trimmed (r_projectName r); clientCompany = trimmed (r_clientCompany r)
      in if projectName = [] \<or> clientCompany = [] then None
         else Some (group_key projectName clientCompany))"

definition key_rows :: "string \<Rightarrow> row list \<Rightarrow> row list" where
  "key_rows key rows = filter (\<lambda>r. row_key r = Some key) rows"

text \<open>The pair of trimmed names that the specification groups by.\<close>

definition row_pair :: "row \<Rightarrow> string \<times> string" where
  "row_pair r = (trimmed (r_projectName r), trimmed (r_clientCompany r))"

text \<open>What one more row of a group makes of the group so far.\<close>

definition merged :: "row \<Rightarrow> group option \<Rightarrow> group" where
  "merged r old =
     (let g = (case old of None \<Rightarrow> new_group r | Some g0 \<Rightarrow> elevate r g0)
      in g\<lparr>g_scopes := g_scopes g @ [scope_draft r]\<rparr>)"


definition incoming :: "row list \<Rightarrow> jsvalue list" where
  "incoming rows = map (\<lambda>r. cleanBidStatus (r_bidStatus r)) rows"

subsection \<open>Committing\<close>

definition bad_dates :: "(string \<Rightarrow> int option) \<Rightarrow> group \<Rightarrow> bool" where
  "bad_dates dp g \<longleftrightarrow>
     parseDateLoose dp (Some (g_proposalDate g)) = None \<or> parseDateLoose dp (Some (g_dueDate g)) = None"

definition commit_from ::
  "(string \<Rightarrow> int option) \<Rightarrow> import_state \<Rightarrow> (string \<times> group) list \<Rightarrow> import_state" where
  "commit_from dp st grouped = foldl (commit_step dp) st grouped"

text \<open>What one group contributes (the bids created, the errors reported, the tables
  afterwards), and what a list of groups contributes when committed in order.\<close>

definition group_outcome ::
  "(string \<Rightarrow> int option) \<Rightarrow> string \<times> group \<Rightarrow> db \<Rightarrow> bid list \<times> (string \<times> message) list \<times> db" where
  "group_outcome dp kg d =
     (case commit_group dp (snd kg) d of
        (Inr created, d') \<Rightarrow> ([created], [], d')
      | (Inl m, d') \<Rightarrow> ([], [(fst kg, m)], d'))"

fun run ::
  "(string \<Rightarrow> int option) \<Rightarrow> (string \<times> group) list \<Rightarrow> db \<Rightarrow> bid list \<times> (string \<times> message) list \<times> db" where
  "run dp [] d = ([], [], d)"
| "run dp (kg # gs) d =
     (case group_outcome dp kg d of
        (R, E, d') \<Rightarrow> (case run dp gs d' of (R', E', d'') \<Rightarrow> (R @ R', E @ E', d'')))"

subsection \<open>Permissions\<close>

text \<open>The role matrix as the specification tabulates it.\<close>

fun matrix :: "Role \<Rightarrow> Action \<Rightarrow> bool" where
  "matrix ADMIN a = True"
| "matrix ESTIMATOR a = True"
| "matrix MANAGER a = (a \<noteq> Delete)"
| "matrix VIEWER a = (a = Read)"

definition allowed :: "request \<Rightarrow> Action \<Rightarrow> bool" where
  "allowed req a = (case role_of req of None \<Rightarrow> False | Some r \<Rightarrow> matrix r a)"

definition forbidden :: handler where
  "forbidden = (\<lambda>d. (Reply 403 (error_body ''Forbidden''), d))"



subsection \<open>Scopes\<close>

definition scope_fields :: "scope \<Rightarrow> scope_in" where
  "scope_fields x = \<lparr> si_name = s_name x, si_cost = s_cost x, si_status = s_status x \<rparr>"

definition is_array :: "jsvalue \<Rightarrow> bool" where
  "is_array v \<longleftrightarrow> (case v of JArr xs \<Rightarrow> True | _ \<Rightarrow> False)"






text \<open>Every scope row belongs to a bid of the table.\<close>

definition scopes_owned :: "db \<Rightarrow> bool" where
  "scopes_owned d \<longleftrightarrow> (\<forall>x \<in> set (scopes d). s_bidId x \<in> b_id ` set (bids d))"

subsection \<open>Responses\<close>

definition reply_status :: "response \<Rightarrow> nat option" where
  "reply_status r = (case r of Reply c b \<Rightarrow> Some c | End c \<Rightarrow> Some c | NextError e \<Rightarrow> None)"

definition reply_body :: "response \<Rightarrow> jsvalue" where
  "reply_body r = (case r of Reply c b \<Rightarrow> b | _ \<Rightarrow> JUndefined)"

section \<open>Example inputs\<close>

definition example_row :: "string \<Rightarrow> string \<Rightarrow> string \<Rightarrow> string \<Rightarrow> string \<Rightarrow> string \<Rightarrow> row" where
  "example_row project client status scopeName scopeCost due =
     \<lparr> r_projectName = Some project, r_clientCompany = Some client, r_contactName = None,
       r_proposalDate = Some ''05/03/2024'', r_dueDate = Some due,
       r_jobLocation = None, r_leadSource = None, r_bidStatus = Some status,
       r_scopeName = Some scopeName, r_scopeCost = Some scopeCost, r_scopeStatus = None \<rparr>"

definition empty_db :: db where
  "empty_db = \<lparr> companies = [], contacts = [], bids = [], scopes = [],
                noteRows = [], attachments = [], bidTags = [] \<rparr>"

text \<open>An engine parser that rejects every text; the examples that use it give their valid
  dates in the day/month/year form, which does not reach the engine.\<close>

definition rejecting_parser :: "string \<Rightarrow> int option" where
  "rejecting_parser t = None"

definition example_bid :: bid where
  "example_bid =
     \<lparr> b_id = 7, b_projectName = ''Depot'', b_clientCompanyId = 1, b_contactId = None,
       b_proposalDate = None, b_dueDate = None, b_followUpOn = None,
       b_jobLocation = None, b_leadSource = None, b_bidStatus = ''Active'' \<rparr>"

definition example_db :: db where
  "example_db =
     \<lparr> companies = [\<lparr> c_id = 1, c_name = ''Acme'' \<rparr>],
       contacts = [],
       bids = [example_bid],
       scopes = [\<lparr> s_id = 1, s_bidId = 7, s_name = ''Roof'', s_cost = Fin 100, s_status = ''Won'' \<rparr>,
                 \<lparr> s_id = 2, s_bidId = 7, s_name = ''Wall'', s_cost = Fin 200, s_status = ''Pending'' \<rparr>,
                 \<lparr> s_id = 3, s_bidId = 7, s_name = ''Floor'', s_cost = Fin 300, s_status = ''Lost'' \<rparr>],
       noteRows = [], attachments = [], bidTags = [] \<rparr>"

definition example_request :: "Role \<Rightarrow> string \<Rightarrow> jsvalue \<Rightarrow> request" where
  "example_request role i body =
     \<lparr> req_user = Some \<lparr> u_id = 1, u_role = role \<rparr>, req_id = i, req_body = body \<rparr>"

definition example_payload :: "jsvalue \<Rightarrow> jsvalue \<Rightarrow> jsvalue \<Rightarrow> jsvalue" where
  "example_payload company status scopes' =
     JObj [(''projectName'', JStr ''Depot''), (''clientCompanyId'', company),
           (''bidStatus'', status), (''scopes'', scopes')]"

text \<open>What the routes make of \<open>example_payload\<close> with the company \<open>c\<close> and the status
  \<open>Hot\<close>, for the storage layer.\<close>

definition example_data :: "int \<Rightarrow> scope_in list \<Rightarrow> bid_data" where
  "example_data c xs =
     \<lparr> bd_projectName = ''Depot'', bd_clientCompanyId = JNum (Fin (of_int c)), bd_contactId = JNull,
       bd_proposalDate = JNull, bd_dueDate = JNull, bd_followUpOn = JNull,
       bd_jobLocation = JNull, bd_leadSource = JNull, bd_bidStatus = JStr ''Hot'',
       bd_scopes = xs \<rparr>"



definition collision_rows :: "row list" where
  "collision_rows =
     [example_row ''Depot||North'' ''Acme'' ''active'' ''Roof'' ''100'' ''01/04/2024'',
      example_row ''Depot'' ''North||Acme'' ''active'' ''Wall'' ''200'' ''01/04/2024'']"

definition one_scope_payload :: jsvalue where
  "one_scope_payload =
     example_payload (JNum (Fin 1)) (JStr ''Hot'')
       (JArr [JObj [(''name'', JStr ''Gutter''), (''cost'', JNum (Fin 50)), (''status'', JStr ''Won'')]])"

definition unknown_company_payload :: jsvalue where
  "unknown_company_payload =
     example_payload (JNum (Fin 9)) (JStr ''Hot'')
       (JArr [JObj [(''name'', JStr ''Gutter''), (''cost'', JNum (Fin 50)), (''status'', JStr ''Won'')]])"

definition open_gate :: "request \<Rightarrow> db \<Rightarrow> response option" where
  "open_gate req d = None"

definition null_scopes_payload :: jsvalue where
  "null_scopes_payload = example_payload (JNum (Fin 1)) (JStr ''Hot'') JNull"

text \<open>A payload without scopes whose project name is an object with a \<open>toString\<close> member
  of its own.\<close>

definition unconvertible_name_payload :: jsvalue where
  "unconvertible_name_payload =
     JObj [(''projectName'', JObj [(''toString'', JNum (Fin 1))]),
           (''clientCompanyId'', JNum (Fin 1)), (''scopes'', JNull)]"



definition mixed_rows :: "row list" where
  "mixed_rows =
     [example_row ''Depot'' ''Acme'' ''active'' ''Roof'' ''100'' ''01/04/2024'',
      example_row ''Mill'' ''Acme'' ''active'' ''Wall'' ''200'' ''not a date'']"

definition depot_group :: group where
  "depot_group =
     \<lparr> g_projectName = ''Depot'', g_clientCompany = ''Acme'', g_contactName = None,
       g_proposalDate = ''05/03/2024'', g_dueDate = ''01/04/2024'',
       g_jobLocation = None, g_leadSource = None, g_bidStatus = JStr ''Active'',
       g_scopes = [\<lparr> d_name = ''Roof'', d_cost = Fin 100, d_status = None \<rparr>] \<rparr>"

definition mill_group :: group where
  "mill_group =
     \<lparr> g_projectName = ''Mill'', g_clientCompany = ''Acme'', g_contactName = None,
       g_proposalDate = ''05/03/2024'', g_dueDate = ''not a date'',
       g_jobLocation = None, g_leadSource = None, g_bidStatus = JStr ''Active'',
       g_scopes = [\<lparr> d_name = ''Wall'', d_cost = Fin 200, d_status = None \<rparr>] \<rparr>"

section \<open>Evaluation of the helpers on literals\<close>

lemmas str_eval = trim_def is_ws_def toLowerCase_def lower_char_def upper_char_def char_of_def bit_0
  str_or_empty_def trimmed_def trimmed_or_null_def is_digit_def digit_val_def digits_val_def Let_def
lemmas status_eval = cleanBidStatus_def object_get_def bid_status_map_def nullish_def
  object_prototype_keys_def cleanStatus_def
lemmas num_eval = toNumberOrZero_def and_then_def StringToNumber_def strip_separators_def coalesce_def
  non_decimal_literal_def str_decimal_def unsigned_decimal_def exponent_part_def signed_digits_def
  scale10_def overflow_def negate_def isFinite_def digit_of_def opt_value_def nullish_def
lemmas group_eval = group_rows_def group_step_def group_key_def new_group_def elevate_def
  scope_draft_def modify_def row_key_def key_rows_def incoming_def example_row_def

lemma returned_Inr [simp]: "returned (Inr n) = n"
  by (simp add: returned_def)

lemma and_then_Inr [simp]: "and_then (Inr x) f = f x"
  by (simp add: and_then_def)

lemma and_then_Inl [simp]: "and_then (Inl e) f = Inl e"
  by (simp add: and_then_def)

lemma and_then_returns:
  "and_then r f = Inr y \<longleftrightarrow> (\<exists>x. r = Inr x \<and> f x = Inr y)"
  by (cases r) simp_all


lemma toNumberOrZero_text:
  "toNumberOrZero (JStr t)
     = Inr (if isFinite (StringToNumber (strip_separators t)) then StringToNumber (strip_separators t)
            else Fin 0)"
  by (simp add: toNumberOrZero_def coalesce_def nullish_def)


lemma toNumberOrZero_cell:
  "toNumberOrZero (opt_value c)
     = Inr (let n = StringToNumber (strip_separators (str_or_empty c))
            in if isFinite n then n else Fin 0)"
  by (cases c) (simp_all add: opt_value_def str_or_empty_def toNumberOrZero_def coalesce_def nullish_def)

lemma clean_active: "cleanBidStatus (Some ''active'') = JStr ''Active''"
  by (simp add: str_eval status_eval)


lemma cost_100: "toNumberOrZero (JStr ''100'') = Inr (Fin 100)"
  by (simp add: str_eval num_eval)

lemma cost_200: "toNumberOrZero (JStr ''200'') = Inr (Fin 200)"
  by (simp add: str_eval num_eval)

section \<open>Grouping of import rows\<close>

lemma map_of_modify:
  "map_of (modify key f G) k = (if k = key then map_option f (map_of G key) else map_of G k)"
  by (induction G) (auto simp: modify_def)

lemma map_fst_modify: "map fst (modify key f G) = map fst G"
  by (induction G) (auto simp: modify_def)

lemma group_step_skip: "row_key r = None \<Longrightarrow> group_step G r = G"
  by (auto simp: row_key_def group_step_def Let_def)

lemma map_of_snoc:
  "map_of (G @ [(k, v)]) k' =
     (case map_of G k' of Some x \<Rightarrow> Some x | None \<Rightarrow> if k' = k then Some v else None)"
  by (induction G) auto

lemma group_step_key:
  assumes "row_key r = Some key"
  shows "group_step G r =
           modify key (\<lambda>g. g\<lparr>g_scopes := g_scopes g @ [scope_draft r]\<rparr>)
             (case map_of G key of
                None \<Rightarrow> G @ [(key, new_group r)]
              | Some g \<Rightarrow> modify key (elevate r) G)"
  using assms by (auto simp: row_key_def group_step_def Let_def split: if_splits)

lemma group_step_lookup:
  assumes "row_key r = Some key"
  shows "map_of (group_step G r) k =
           (if k = key then Some (merged r (map_of G key)) else map_of G k)"
proof (cases "map_of G key")
  case None
  then show ?thesis
    by (auto simp: group_step_key [OF assms] map_of_modify map_add_def merged_def Let_def split: option.splits)
next
  case (Some g)
  then show ?thesis
    by (simp add: group_step_key [OF assms] map_of_modify merged_def Let_def)
qed

lemma group_step_keys:
  assumes "row_key r = Some key"
  shows "map fst (group_step G r) =
           (if map_of G key = None then map fst G @ [key] else map fst G)"
  by (cases "map_of G key") (simp_all add: group_step_key [OF assms] map_fst_modify)

lemma group_rows_snoc: "group_rows (rows @ [r]) = group_step (group_rows rows) r"
  by (simp add: group_rows_def)


lemma group_rows_distinct: "distinct (map fst (group_rows rows))"
proof (induction rows rule: rev_induct)
  case Nil
  show ?case by (simp add: group_rows_def)
next
  case (snoc r rows)
  show ?case
  proof (cases "row_key r")
    case None
    with snoc show ?thesis by (simp add: group_rows_snoc group_step_skip)
  next
    case (Some key)
    with snoc show ?thesis
      by (auto simp: group_rows_snoc group_step_keys map_of_eq_None_iff)
  qed
qed

lemma group_rows_None: "key_rows key rows = [] \<Longrightarrow> map_of (group_rows rows) key = None"
proof (induction rows rule: rev_induct)
  case Nil
  show ?case by (simp add: group_rows_def)
next
  case (snoc r rows)
  then show ?case
    by (cases "row_key r") (auto simp: group_rows_snoc group_step_skip group_step_lookup key_rows_def split: if_splits)
qed

lemma key_rows_snoc:
  "key_rows key (rows @ [r]) = (if row_key r = Some key then key_rows key rows @ [r] else key_rows key rows)"
  by (simp add: key_rows_def)

lemma group_rows_lookup_snoc:
  "map_of (group_rows (rows @ [r])) key =
     (if row_key r = Some key then Some (merged r (map_of (group_rows rows) key))
      else map_of (group_rows rows) key)"
  by (cases "row_key r") (simp_all add: group_rows_snoc group_step_skip group_step_lookup)

lemma group_rows_Some: "key_rows key rows \<noteq> [] \<Longrightarrow> \<exists>g. map_of (group_rows rows) key = Some g"
proof (induction rows rule: rev_induct)
  case Nil
  then show ?case by (simp add: key_rows_def)
next
  case (snoc r rows)
  then show ?case
    by (auto simp: group_rows_lookup_snoc key_rows_snoc split: if_splits)
qed

lemma group_rows_None_iff: "map_of (group_rows rows) key = None \<longleftrightarrow> key_rows key rows = []"
proof
  assume "map_of (group_rows rows) key = None"
  then show "key_rows key rows = []"
    using group_rows_Some [of key rows] by (cases "key_rows key rows = []") auto
next
  assume "key_rows key rows = []"
  then show "map_of (group_rows rows) key = None" by (rule group_rows_None)
qed



lemma group_rows_scopes:
  "map_of (group_rows rows) key = Some g \<Longrightarrow>
   g_scopes g = map scope_draft (key_rows key rows)"
proof (induction rows arbitrary: g rule: rev_induct)
  case Nil
  then show ?case by (simp add: group_rows_def)
next
  case (snoc r rows)
  show ?case
  proof (cases "row_key r = Some key")
    case False
    with snoc show ?thesis by (simp add: group_rows_lookup_snoc key_rows_snoc)
  next
    case True
    then have g: "g = merged r (map_of (group_rows rows) key)"
      using snoc.prems by (simp add: group_rows_lookup_snoc)
    show ?thesis
    proof (cases "map_of (group_rows rows) key")
      case None
      then have "key_rows key rows = []" by (simp add: group_rows_None_iff)
      with None True g show ?thesis
        by (simp add: key_rows_snoc merged_def new_group_def)
    next
      case (Some g0)
      then have "g_scopes g0 = map scope_draft (key_rows key rows)"
        by (rule snoc.IH)
      with Some True g show ?thesis
        by (simp add: key_rows_snoc merged_def elevate_def Let_def)
    qed
  qed
qed












lemmas store_eval = bid_create_def check_data_def check_ref_def check_date_def check_text_def
  check_status_def as_int_def next_id_def write_fields_def blank_bid_def create_scopes_def
  set_int_def set_opt_int_def set_date_def set_text_def set_status_def bid_status_names_def
  company_findFirst_def company_create_def contact_findFirst_def contact_create_def
  upsert_company_def upsert_contact_def scopes_of_def scope_deleteMany_def bid_update_def
  bid_findUnique_def

lemmas commit_eval = commit_group_def commit_step_def commit_groups_def import_bids_def
  import_bid_data_def scopeCreates_def or_default_def truthy_def invalid_dates_message_def

lemma dropWhile_hd: "s \<noteq> [] \<Longrightarrow> \<not> P (hd s) \<Longrightarrow> dropWhile P s = s"
  by (cases s) auto

lemma trim_id: "s \<noteq> [] \<Longrightarrow> \<not> is_ws (hd s) \<Longrightarrow> \<not> is_ws (last s) \<Longrightarrow> trim s = s"
  by (simp add: trim_def dropWhile_hd hd_rev)

lemma iso_05: "\<not> iso_prefix ''05/03/2024''"
  by (simp add: iso_prefix_def is_digit_def)

lemma dmy_05: "match_dmy ''05/03/2024'' = Some (''05'', ''03'', ''2024'')"
  by (simp add: match_dmy_def is_digit_def is_date_sep_def Let_def)

lemma utc_05: "Date_UTC 2024 2 5 = Some 1709596800000"
  by (simp add: Date_UTC_def MakeDay_def DayFromYear_def DaysBeforeMonth_def InLeapYear_def
      TimeClip_def msPerDay_def Let_def)

lemma date_05_03_2024: "parseDateLoose dp (Some ''05/03/2024'') = Some 1709596800000"
  by (simp add: parseDateLoose_def str_or_empty_def trim_id is_ws_def iso_05 dmy_05
      digits_val_def digit_val_def utc_05)

lemma iso_01: "\<not> iso_prefix ''01/04/2024''"
  by (simp add: iso_prefix_def is_digit_def)

lemma dmy_01: "match_dmy ''01/04/2024'' = Some (''01'', ''04'', ''2024'')"
  by (simp add: match_dmy_def is_digit_def is_date_sep_def Let_def)

lemma utc_01: "Date_UTC 2024 3 1 = Some 1711929600000"
  by (simp add: Date_UTC_def MakeDay_def DayFromYear_def DaysBeforeMonth_def InLeapYear_def
      TimeClip_def msPerDay_def Let_def)

lemma date_01_04_2024: "parseDateLoose dp (Some ''01/04/2024'') = Some 1711929600000"
  by (simp add: parseDateLoose_def str_or_empty_def trim_id is_ws_def iso_01 dmy_01
      digits_val_def digit_val_def utc_01)

lemma collision_grouped:
  "group_rows collision_rows =
     [(''Depot||North||Acme'',
       \<lparr> g_projectName = ''Depot||North'', g_clientCompany = ''Acme'', g_contactName = None,
         g_proposalDate = ''05/03/2024'', g_dueDate = ''01/04/2024'',
         g_jobLocation = None, g_leadSource = None, g_bidStatus = JStr ''Active'',
         g_scopes = [\<lparr> d_name = ''Roof'', d_cost = Fin 100, d_status = None \<rparr>,
                     \<lparr> d_name = ''Wall'', d_cost = Fin 200, d_status = None \<rparr>] \<rparr>)]"
  by (simp add: collision_rows_def group_eval str_eval clean_active cost_100 cost_200
      cleanStatus_def opt_value_def)

text \<open>
  C4. Failing input: two rows whose (projectName, clientCompany) pairs differ,
  (\<open>Depot||North\<close>, \<open>Acme\<close>) and (\<open>Depot\<close>, \<open>North||Acme\<close>). Both get the key
  \<open>Depot||North||Acme\<close>, so the loop puts them into one group and the import creates one
  bid, named after the first row, with the scopes of both.
\<close>

theorem distinct_pairs_share_a_group:
  "map row_pair collision_rows = [(''Depot||North'', ''Acme''), (''Depot'', ''North||Acme'')]
   \<and> map (\<lambda>(k, g). (k, g_projectName g, g_clientCompany g, map d_name (g_scopes g)))
         (group_rows collision_rows)
       = [(''Depot||North||Acme'', ''Depot||North'', ''Acme'', [''Roof'', ''Wall''])]
   \<and> fst (import_bids dp (Some collision_rows) empty_db) = Imported 1 []
   \<and> map b_projectName (bids (snd (import_bids dp (Some collision_rows) empty_db))) = [''Depot||North'']
   \<and> map s_name (scopes (snd (import_bids dp (Some collision_rows) empty_db))) = [''Roof'', ''Wall'']"
proof -
  have p: "map row_pair collision_rows = [(''Depot||North'', ''Acme''), (''Depot'', ''North||Acme'')]"
    by (simp add: collision_rows_def row_pair_def example_row_def str_eval)
  let ?g = "\<lparr> g_projectName = ''Depot||North'', g_clientCompany = ''Acme'', g_contactName = None,
         g_proposalDate = ''05/03/2024'', g_dueDate = ''01/04/2024'',
         g_jobLocation = None, g_leadSource = None, g_bidStatus = JStr ''Active'',
         g_scopes = [\<lparr> d_name = ''Roof'', d_cost = Fin 100, d_status = None \<rparr>,
                     \<lparr> d_name = ''Wall'', d_cost = Fin 200, d_status = None \<rparr>] \<rparr>"
  let ?b = "\<lparr> b_id = 1, b_projectName = ''Depot||North'', b_clientCompanyId = 1,
                         b_contactId = None, b_proposalDate = Some 1709596800000,
                         b_dueDate = Some 1711929600000, b_followUpOn = None,
                         b_jobLocation = None, b_leadSource = None, b_bidStatus = ''Active'' \<rparr>"
  let ?d = "\<lparr> companies = [\<lparr> c_id = 1, c_name = ''Acme'' \<rparr>], contacts = [],
               bids = [?b],
               scopes = [\<lparr> s_id = 1, s_bidId = 1, s_name = ''Roof'', s_cost = Fin 100, s_status = ''Pending'' \<rparr>,
                         \<lparr> s_id = 2, s_bidId = 1, s_name = ''Wall'', s_cost = Fin 200, s_status = ''Pending'' \<rparr>],
               noteRows = [], attachments = [], bidTags = [] \<rparr>"
  have sc: "scopeCreates ?g = [\<lparr> si_name = ''Roof'', si_cost = Fin 100, si_status = ''Pending'' \<rparr>,
                               \<lparr> si_name = ''Wall'', si_cost = Fin 200, si_status = ''Pending'' \<rparr>]"
    by (simp add: scopeCreates_def toNumberOrZero_def isFinite_def cleanStatus_def str_or_empty_def trim_def)
  have c: "commit_group dp ?g empty_db = (Inr ?b, ?d)"
    by (simp add: commit_group_def date_05_03_2024 date_01_04_2024 empty_db_def
        upsert_company_def company_findFirst_def company_create_def upsert_contact_def
        import_bid_data_def sc or_default_def truthy_def next_id_def
        bid_create_def check_data_def check_ref_def check_date_def check_text_def check_status_def
        as_int_def nullish_def bid_status_names_def write_fields_def blank_bid_def create_scopes_def
        set_int_def set_opt_int_def set_date_def set_text_def set_status_def Let_def)
  have i: "import_bids dp (Some collision_rows) empty_db = (Imported 1 [], ?d)"
    by (simp add: import_bids_def collision_grouped commit_groups_def commit_step_def c)
  show ?thesis by (simp add: p i collision_grouped)
qed

section \<open>Date parsing\<close>

lemma parseDateLoose_dmy:
  assumes "s \<noteq> []" and "\<not> iso_prefix (trim s)" and "match_dmy (trim s) = Some (a, b, y)"
  shows "parseDateLoose dp (Some s) =
           Date_UTC (int (digits_val y)) (int (digits_val b) - 1) (int (digits_val a))"
  using assms by (simp add: parseDateLoose_def str_or_empty_def)

lemma parseDateLoose_iso:
  assumes "s \<noteq> []" and "iso_prefix (trim s)"
  shows "parseDateLoose dp (Some s) = dp (trim s)"
  using assms by (simp add: parseDateLoose_def str_or_empty_def)

lemma parseDateLoose_fallback:
  assumes "s \<noteq> []" and "\<not> iso_prefix (trim s)" and "match_dmy (trim s) = None"
  shows "parseDateLoose dp (Some s) = dp (trim s)"
  using assms by (simp add: parseDateLoose_def str_or_empty_def)

lemma iso_31: "\<not> iso_prefix ''31/02/2024''"
  by (simp add: iso_prefix_def is_digit_def)

lemma dmy_31: "match_dmy ''31/02/2024'' = Some (''31'', ''02'', ''2024'')"
  by (simp add: match_dmy_def is_digit_def is_date_sep_def Let_def)

lemma utc_31: "Date_UTC 2024 1 31 = Some 1709337600000"
  by (simp add: Date_UTC_def MakeDay_def DayFromYear_def DaysBeforeMonth_def InLeapYear_def
      TimeClip_def msPerDay_def Let_def)

lemma civil_2_march: "utc_date 1709337600000 = (2024, 3, 2)"
  by code_simp

lemma civil_5_march: "utc_date 1709596800000 = (2024, 3, 5)"
  by code_simp

text \<open>
  C6. Failing input: \<open>31/02/2024\<close>, which names no calendar date. The text matches the
  day/month/year pattern, \<open>Date.UTC(2024, 1, 31)\<close> counts 31 days from 1 February, and the
  result is the valid Date 2 March 2024, not \<open>null\<close>.
\<close>

theorem february_31_rolls_over:
  "parseDateLoose dp (Some ''31/02/2024'') = Some 1709337600000
   \<and> utc_date 1709337600000 = (2024, 3, 2)"
proof -
  have "parseDateLoose dp (Some ''31/02/2024'') = Date_UTC 2024 1 31"
    using parseDateLoose_dmy [of "''31/02/2024''" "''31''" "''02''" "''2024''" dp]
    by (simp add: trim_id is_ws_def iso_31 dmy_31 digits_val_def digit_val_def)
  then show ?thesis by (simp add: utc_31 civil_2_march)
qed

section \<open>Bid status on the write paths\<close>

lemma clean_completed: "cleanBidStatus (Some ''completed'') = JStr ''Complete''"
  by (simp add: str_eval status_eval)

lemma clean_constructor: "cleanBidStatus (Some ''constructor'') = JNative ''constructor''"
  by (simp add: str_eval status_eval)

lemma the_prop_example:
  "the_prop (example_payload company status scopes') ''bidStatus'' = status"
  "the_prop (example_payload company status scopes') ''projectName'' = JStr ''Depot''"
  "the_prop (example_payload company status scopes') ''clientCompanyId'' = company"
  "the_prop (example_payload company status scopes') ''contactId'' = JUndefined"
  "the_prop (example_payload company status scopes') ''proposalDate'' = JUndefined"
  "the_prop (example_payload company status scopes') ''dueDate'' = JUndefined"
  "the_prop (example_payload company status scopes') ''followUpOn'' = JUndefined"
  "the_prop (example_payload company status scopes') ''jobLocation'' = JUndefined"
  "the_prop (example_payload company status scopes') ''leadSource'' = JUndefined"
  by (simp_all add: the_prop_def get_prop_def example_payload_def object_prototype_keys_def)

lemma trim_Depot: "trim ''Depot'' = ''Depot''"
  by (simp add: trim_id is_ws_def)

lemma example_post_data:
  "post_data dp (example_payload company status scopes') xs
     = Inr \<lparr> bd_projectName = ''Depot'', bd_clientCompanyId = company, bd_contactId = JNull,
              bd_proposalDate = JNull, bd_dueDate = JNull, bd_followUpOn = JNull,
              bd_jobLocation = JNull, bd_leadSource = JNull, bd_bidStatus = status,
              bd_scopes = xs \<rparr>"
  by (simp add: post_data_def the_prop_example coalesce_def nullish_def parseDateOrNull_def
      truthy_def trim_Depot)

lemma example_put_data:
  "put_data dp (example_payload company status scopes') xs
     = Inr \<lparr> bd_projectName = ''Depot'', bd_clientCompanyId = company, bd_contactId = JNull,
              bd_proposalDate = JNull, bd_dueDate = JNull, bd_followUpOn = JNull,
              bd_jobLocation = JNull, bd_leadSource = JNull, bd_bidStatus = status,
              bd_scopes = xs \<rparr>"
  by (simp add: put_data_def the_prop_example coalesce_def nullish_def parseDateOrNull_def
      truthy_def or_default_def trim_Depot)

text \<open>
  C8. Failing input: a create or update payload with \<open>bidStatus: "completed"\<close>. The routes
  hand the value to the storage layer as it is; the import route would have made it
  \<open>Complete\<close>. On the import route itself the status text \<open>constructor\<close> is not mapped to
  \<open>Active\<close>: the lookup finds the inherited property of that name.
\<close>

theorem create_passes_status_through:
  "post_data dp (example_payload (JNum (Fin 1)) (JStr ''completed'') (JArr [])) []
     = Inr \<lparr> bd_projectName = ''Depot'', bd_clientCompanyId = JNum (Fin 1), bd_contactId = JNull,
              bd_proposalDate = JNull, bd_dueDate = JNull, bd_followUpOn = JNull,
              bd_jobLocation = JNull, bd_leadSource = JNull, bd_bidStatus = JStr ''completed'',
              bd_scopes = [] \<rparr>
   \<and> put_data dp (example_payload (JNum (Fin 1)) (JStr ''completed'') (JArr [])) []
     = Inr \<lparr> bd_projectName = ''Depot'', bd_clientCompanyId = JNum (Fin 1), bd_contactId = JNull,
              bd_proposalDate = JNull, bd_dueDate = JNull, bd_followUpOn = JNull,
              bd_jobLocation = JNull, bd_leadSource = JNull, bd_bidStatus = JStr ''completed'',
              bd_scopes = [] \<rparr>
   \<and> cleanBidStatus (Some ''completed'') = JStr ''Complete''
   \<and> cleanBidStatus (Some ''constructor'') = JNative ''constructor''"
  by (simp add: example_post_data example_put_data clean_completed clean_constructor)

section \<open>Replacing the scopes of a bid\<close>

lemma number_scopes_fields: "map scope_fields (number_scopes n i xs) = xs"
  by (induction xs arbitrary: n) (simp_all add: scope_fields_def)

lemma number_scopes_bidId: "x \<in> set (number_scopes n i xs) \<Longrightarrow> s_bidId x = i"
  by (induction xs arbitrary: n) auto

lemma filter_number_scopes_same: "filter (\<lambda>s. s_bidId s = i) (number_scopes n i xs) = number_scopes n i xs"
  by (simp add: number_scopes_bidId)

lemma filter_number_scopes_other: "j \<noteq> i \<Longrightarrow> filter (\<lambda>s. s_bidId s = j) (number_scopes n i xs) = []"
  by (auto simp: filter_empty_conv dest: number_scopes_bidId)

lemma bid_update_scopes:
  assumes "bid_update i data d0 = Inr (b, d1)"
  shows "scopes d1 = scopes d0 @ number_scopes (next_id (map s_id (scopes d0))) i (bd_scopes data)"
  using assms
  by (auto simp: bid_update_def create_scopes_def Let_def split: option.splits)

lemma replaced_scopes:
  assumes "bid_update i data (scope_deleteMany i d) = Inr (b, d')"
  shows "map scope_fields (scopes_of i d') = bd_scopes data"
    and "j \<noteq> i \<Longrightarrow> scopes_of j d' = scopes_of j d"
proof -
  have s: "scopes d' = filter (\<lambda>s. s_bidId s \<noteq> i) (scopes d)
             @ number_scopes (next_id (map s_id (filter (\<lambda>s. s_bidId s \<noteq> i) (scopes d)))) i (bd_scopes data)"
    using bid_update_scopes [OF assms] by (simp add: scope_deleteMany_def)
  show "map scope_fields (scopes_of i d') = bd_scopes data"
    by (simp add: scopes_of_def s filter_number_scopes_same number_scopes_fields)
  show "scopes_of j d' = scopes_of j d" if "j \<noteq> i"
  proof -
    have "filter (\<lambda>s. s_bidId s = j) (filter (\<lambda>s. s_bidId s \<noteq> i) (scopes d)) = filter (\<lambda>s. s_bidId s = j) (scopes d)"
      using that by (auto intro: filter_cong)
    then show ?thesis
      using that by (simp add: scopes_of_def s filter_number_scopes_other)
  qed
qed

lemma the_prop_get: "get_prop v k = Inr x \<Longrightarrow> the_prop v k = x"
  by (simp add: the_prop_def)

lemma post_data_scopes: "post_data dp body xs = Inr data \<Longrightarrow> bd_scopes data = xs"
  by (auto simp: post_data_def and_then_returns)

lemma put_data_scopes: "put_data dp body xs = Inr data \<Longrightarrow> bd_scopes data = xs"
  by (auto simp: put_data_def and_then_returns)

lemma put_handler_ok:
  assumes "put_handler dp req d = (Reply 200 body, d')"
  shows "\<exists>i xs data b. as_int (JNum (StringToNumber (req_id req))) = Some i
            \<and> sanitizeScopes (the_prop (req_body req) ''scopes'') = Inr xs
            \<and> put_data dp (req_body req) xs = Inr data
            \<and> bid_update i data (scope_deleteMany i d) = Inr (b, d')"
  using assms
  by (auto simp: put_handler_def transaction_def delete_scopes_stmt_def update_bid_stmt_def
      Let_def the_prop_get split: if_splits sum.splits option.splits prod.splits)

lemma put_handler_failed:
  assumes "put_handler dp req d = (r, d')" and "\<forall>body. r \<noteq> Reply 200 body"
  shows "d' = d"
  using assms
  by (auto simp: put_handler_def transaction_def delete_scopes_stmt_def update_bid_stmt_def
      Let_def split: if_splits sum.splits option.splits prod.splits)

lemma requireRole_cases:
  "requireRole roles req next d = next d \<or> requireRole roles req next d = (Reply 403 (error_body ''Forbidden''), d)"
  by (simp add: requireRole_def split: option.splits)

text \<open>
  C1. An update that answers 200 leaves, for the bid, exactly the sanitized scopes of the
  payload, in their order, and leaves the scopes of every other bid alone; an update that
  does not answer 200 leaves every table as it was. So a bid with three scopes that is
  updated with one scope has one scope, and keeps its three if the update fails.
\<close>

theorem update_replaces_scopes_atomically:
  "(PUT_bid gate dp req d = (Reply 200 body, d') \<and> gate req d = None \<longrightarrow>
      (\<exists>i xs. as_int (JNum (StringToNumber (req_id req))) = Some i
         \<and> sanitizeScopes (the_prop (req_body req) ''scopes'') = Inr xs
         \<and> map scope_fields (scopes_of i d') = xs
         \<and> (\<forall>j. j \<noteq> i \<longrightarrow> scopes_of j d' = scopes_of j d)))
   \<and> (PUT_bid gate dp req d = (r, d') \<and> (\<forall>body. r \<noteq> Reply 200 body) \<longrightarrow> d' = d)"
proof (intro conjI impI)
  assume a: "PUT_bid gate dp req d = (Reply 200 body, d') \<and> gate req d = None"
  then have "requireRole [ADMIN, MANAGER, ESTIMATOR] req (put_handler dp req) d = (Reply 200 body, d')"
    by (auto simp: PUT_bid_def)
  then have "put_handler dp req d = (Reply 200 body, d')"
    using requireRole_cases [of "[ADMIN, MANAGER, ESTIMATOR]" req "put_handler dp req" d] by auto
  from put_handler_ok [OF this] obtain i xs data b where
    i: "as_int (JNum (StringToNumber (req_id req))) = Some i"
    and xs: "sanitizeScopes (the_prop (req_body req) ''scopes'') = Inr xs"
    and pd: "put_data dp (req_body req) xs = Inr data"
    and u: "bid_update i data (scope_deleteMany i d) = Inr (b, d')"
    by blast
  have "map scope_fields (scopes_of i d') = xs"
    using replaced_scopes(1) [OF u] put_data_scopes [OF pd] by simp
  moreover have "\<forall>j. j \<noteq> i \<longrightarrow> scopes_of j d' = scopes_of j d"
    using replaced_scopes(2) [OF u] by blast
  ultimately show "\<exists>i xs. as_int (JNum (StringToNumber (req_id req))) = Some i
         \<and> sanitizeScopes (the_prop (req_body req) ''scopes'') = Inr xs
         \<and> map scope_fields (scopes_of i d') = xs
         \<and> (\<forall>j. j \<noteq> i \<longrightarrow> scopes_of j d' = scopes_of j d)"
    using i xs by blast
next
  assume a: "PUT_bid gate dp req d = (r, d') \<and> (\<forall>body. r \<noteq> Reply 200 body)"
  show "d' = d"
  proof (cases "gate req d")
    case (Some x)
    with a show ?thesis by (auto simp: PUT_bid_def)
  next
    case None
    with a have rr: "requireRole [ADMIN, MANAGER, ESTIMATOR] req (put_handler dp req) d = (r, d')"
      by (auto simp: PUT_bid_def)
    from requireRole_cases [of "[ADMIN, MANAGER, ESTIMATOR]" req "put_handler dp req" d]
    show ?thesis
    proof
      assume "requireRole [ADMIN, MANAGER, ESTIMATOR] req (put_handler dp req) d = put_handler dp req d"
      with rr have "put_handler dp req d = (r, d')" by simp
      then show ?thesis using a by (intro put_handler_failed) auto
    next
      assume "requireRole [ADMIN, MANAGER, ESTIMATOR] req (put_handler dp req) d = (Reply 403 (error_body ''Forbidden''), d)"
      with rr show ?thesis by simp
    qed
  qed
qed

lemma scope_deleteMany_tables [simp]:
  "companies (scope_deleteMany i d) = companies d"
  "contacts (scope_deleteMany i d) = contacts d"
  "bids (scope_deleteMany i d) = bids d"
  by (simp_all add: scope_deleteMany_def)

lemma check_data_scope_deleteMany: "check_data c (scope_deleteMany i d) data = check_data c d data"
  by (simp add: check_data_def)

lemma put_succeeds:
  assumes "isFinite (StringToNumber (req_id req))"
    and "as_int (JNum (StringToNumber (req_id req))) = Some i"
    and "get_prop (req_body req) ''scopes'' = Inr raw"
    and "sanitizeScopes raw = Inr xs"
    and "bid_findUnique i d = Some old"
    and "put_data dp (req_body req) xs = Inr data"
    and "check_data False d data = None"
  shows "\<exists>body d'. put_handler dp req d = (Reply 200 body, d')"
  using assms
  by (simp add: put_handler_def transaction_def delete_scopes_stmt_def update_bid_stmt_def
      bid_update_def bid_findUnique_def check_data_scope_deleteMany Let_def)

lemma put_fails_on_data:
  assumes "isFinite (StringToNumber (req_id req))"
    and "as_int (JNum (StringToNumber (req_id req))) = Some i"
    and "get_prop (req_body req) ''scopes'' = Inr raw"
    and "sanitizeScopes raw = Inr xs"
    and "bid_findUnique i d = Some old"
    and "put_data dp (req_body req) xs = Inr data"
    and "check_data False d data = Some e"
  shows "put_handler dp req d = (NextError (Storage e), d)"
  using assms
  by (simp add: put_handler_def transaction_def delete_scopes_stmt_def update_bid_stmt_def
      bid_update_def bid_findUnique_def check_data_scope_deleteMany Let_def)

lemma number_7: "StringToNumber ''7'' = Fin 7"
  by (simp add: str_eval num_eval)

lemma as_int_of_int: "as_int (JNum (Fin (of_int i))) = Some i"
  by (simp add: as_int_def)

lemma as_int_7: "as_int (JNum (Fin 7)) = Some 7"
  using as_int_of_int [of 7] by simp

lemma gutter_sanitized_one:
  "sanitize_one (JObj [(''name'', JStr ''Gutter''), (''cost'', JNum (Fin 50)), (''status'', JStr ''Won'')])
     = Inr \<lparr> si_name = ''Gutter'', si_cost = Fin 50, si_status = ''Won'' \<rparr>"
  by (simp add: sanitize_one_def the_prop_def get_prop_def nullish_def coalesce_def
      js_Number_def num_truthy_def VALID_SCOPE_STATUS_def trim_id is_ws_def)

lemma gutter_sanitized:
  "sanitizeScopes (JArr [JObj [(''name'', JStr ''Gutter''), (''cost'', JNum (Fin 50)), (''status'', JStr ''Won'')]])
     = Inr [\<lparr> si_name = ''Gutter'', si_cost = Fin 50, si_status = ''Won'' \<rparr>]"
  by (simp add: sanitizeScopes_def gutter_sanitized_one)

lemma example_scopes_prop: "get_prop (example_payload c s x) ''scopes'' = Inr x"
  by (simp add: get_prop_def example_payload_def)

lemma example_data_check:
  "check_data creating example_db (example_data c xs)
     = (if c = 1 then None else Some (ForeignKeyViolation ''clientCompanyId''))"
  by (simp add: check_data_def example_data_def nullish_def check_ref_def as_int_of_int
      check_date_def check_text_def check_status_def bid_status_names_def example_db_def)

lemma example_put_data_Hot:
  "put_data dp (example_payload (JNum (Fin (of_int c))) (JStr ''Hot'') x) xs = Inr (example_data c xs)"
  by (simp add: example_put_data example_data_def)

lemma example_post_data_Hot:
  "post_data dp (example_payload (JNum (Fin (of_int c))) (JStr ''Hot'') x) xs = Inr (example_data c xs)"
  by (simp add: example_post_data example_data_def)

lemma example_bid_found: "bid_findUnique 7 example_db = Some example_bid"
  by (simp add: bid_findUnique_def example_db_def example_bid_def)

theorem update_replaces_scopes_atomically_witness:
  "map scope_fields (scopes_of 7 example_db)
     = [\<lparr> si_name = ''Roof'', si_cost = Fin 100, si_status = ''Won'' \<rparr>,
        \<lparr> si_name = ''Wall'', si_cost = Fin 200, si_status = ''Pending'' \<rparr>,
        \<lparr> si_name = ''Floor'', si_cost = Fin 300, si_status = ''Lost'' \<rparr>]
   \<and> map scope_fields
         (scopes_of 7 (snd (PUT_bid open_gate rejecting_parser
                              (example_request ADMIN ''7'' one_scope_payload) example_db)))
       = [\<lparr> si_name = ''Gutter'', si_cost = Fin 50, si_status = ''Won'' \<rparr>]
   \<and> PUT_bid open_gate rejecting_parser (example_request ADMIN ''7'' unknown_company_payload) example_db
       = (NextError (Storage (ForeignKeyViolation ''clientCompanyId'')), example_db)"
proof -
  let ?ok = "example_request ADMIN ''7'' one_scope_payload"
  let ?bad = "example_request ADMIN ''7'' unknown_company_payload"
  have before: "map scope_fields (scopes_of 7 example_db)
     = [\<lparr> si_name = ''Roof'', si_cost = Fin 100, si_status = ''Won'' \<rparr>,
        \<lparr> si_name = ''Wall'', si_cost = Fin 200, si_status = ''Pending'' \<rparr>,
        \<lparr> si_name = ''Floor'', si_cost = Fin 300, si_status = ''Lost'' \<rparr>]"
    by (simp add: scopes_of_def example_db_def scope_fields_def)
  have role: "requireRole [ADMIN, MANAGER, ESTIMATOR] r h = h" if "role_of r = Some ADMIN" for r h
    using that by (simp add: requireRole_def)
  have admin: "role_of (example_request ADMIN i b) = Some ADMIN" for i b
    by (simp add: role_of_def example_request_def)
  have route: "PUT_bid open_gate dp (example_request ADMIN i b) d = put_handler dp (example_request ADMIN i b) d" for dp i b d
    by (simp add: PUT_bid_def open_gate_def role admin)
  have "\<exists>body d'. put_handler rejecting_parser ?ok example_db = (Reply 200 body, d')"
    by (rule put_succeeds [where i = 7 and old = example_bid
          and raw = "JArr [JObj [(''name'', JStr ''Gutter''), (''cost'', JNum (Fin 50)), (''status'', JStr ''Won'')]]"
          and xs = "[\<lparr> si_name = ''Gutter'', si_cost = Fin 50, si_status = ''Won'' \<rparr>]"
          and data = "example_data 1 [\<lparr> si_name = ''Gutter'', si_cost = Fin 50, si_status = ''Won'' \<rparr>]"])
       (simp_all add: example_request_def one_scope_payload_def number_7 isFinite_def as_int_7
          example_scopes_prop gutter_sanitized example_bid_found
          example_put_data_Hot [of _ 1, simplified] example_data_check)
  then obtain body d' where ok: "PUT_bid open_gate rejecting_parser ?ok example_db = (Reply 200 body, d')"
    by (auto simp: route)
  have gate: "open_gate ?ok example_db = None" by (simp add: open_gate_def)
  from update_replaces_scopes_atomically [of open_gate rejecting_parser ?ok example_db body d'] ok gate
  obtain i xs where "as_int (JNum (StringToNumber (req_id ?ok))) = Some i"
    and "sanitizeScopes (the_prop (req_body ?ok) ''scopes'') = Inr xs"
    and "map scope_fields (scopes_of i d') = xs"
    by blast
  then have after: "map scope_fields (scopes_of 7 d') = [\<lparr> si_name = ''Gutter'', si_cost = Fin 50, si_status = ''Won'' \<rparr>]"
    by (simp add: example_request_def one_scope_payload_def number_7 as_int_7 the_prop_get
        example_scopes_prop gutter_sanitized)
  have "put_handler rejecting_parser ?bad example_db = (NextError (Storage (ForeignKeyViolation ''clientCompanyId'')), example_db)"
    by (rule put_fails_on_data [where i = 7 and old = example_bid
          and raw = "JArr [JObj [(''name'', JStr ''Gutter''), (''cost'', JNum (Fin 50)), (''status'', JStr ''Won'')]]"
          and xs = "[\<lparr> si_name = ''Gutter'', si_cost = Fin 50, si_status = ''Won'' \<rparr>]"
          and data = "example_data 9 [\<lparr> si_name = ''Gutter'', si_cost = Fin 50, si_status = ''Won'' \<rparr>]"])
       (simp_all add: example_request_def unknown_company_payload_def number_7 isFinite_def as_int_7
          example_scopes_prop gutter_sanitized example_bid_found
          example_put_data_Hot [of _ 9, simplified] example_data_check)
  then have failed: "PUT_bid open_gate rejecting_parser ?bad example_db
       = (NextError (Storage (ForeignKeyViolation ''clientCompanyId'')), example_db)"
    by (simp add: route)
  show ?thesis using before after ok failed by simp
qed

lemma sanitizeScopes_non_array: "\<not> is_array raw \<Longrightarrow> sanitizeScopes raw = Inr []"
  by (cases raw) (simp_all add: sanitizeScopes_def is_array_def)

lemma foldr_max_ge: "i \<in> set ids \<Longrightarrow> i \<le> foldr max ids (0::int)"
  by (induction ids) auto

lemma next_id_fresh: "i \<in> set ids \<Longrightarrow> i < next_id ids"
  using foldr_max_ge [of i ids] by (simp add: next_id_def)

lemma write_fields_id: "b_id (write_fields data b) = b_id b"
  by (simp add: write_fields_def)

lemma create_no_scopes: "create_scopes i [] d = d"
  by (simp add: create_scopes_def)

lemma scopes_of_fresh:
  assumes "scopes_owned d"
  shows "scopes_of (next_id (map b_id (bids d))) (d\<lparr>bids := bs\<rparr>) = []"
proof -
  have "s_bidId x \<noteq> next_id (map b_id (bids d))" if "x \<in> set (scopes d)" for x
  proof -
    from assms that have "s_bidId x \<in> set (map b_id (bids d))" by (auto simp: scopes_owned_def)
    then show ?thesis using next_id_fresh by fastforce
  qed
  then show ?thesis by (auto simp: scopes_of_def filter_empty_conv)
qed

lemma post_succeeds:
  assumes "get_prop (req_body req) ''scopes'' = Inr raw"
    and "sanitizeScopes raw = Inr xs"
    and "post_data dp (req_body req) xs = Inr data"
    and "check_data True d data = None"
  shows "\<exists>body b. post_handler dp req d
            = (Reply 201 body, create_scopes (b_id b) xs (d\<lparr>bids := bids d @ [b]\<rparr>))
          \<and> b_id b = next_id (map b_id (bids d))"
proof -
  let ?b = "write_fields data (blank_bid (next_id (map b_id (bids d))))"
  let ?d = "create_scopes (b_id ?b) xs (d\<lparr>bids := bids d @ [?b]\<rparr>)"
  have x: "bd_scopes data = xs" using assms(3) by (rule post_data_scopes)
  have "post_handler dp req d = (Reply 201 (json (JObj (bid_with_scopes ?b ?d))), ?d)"
    using assms by (simp add: post_handler_def bid_create_def Let_def x)
  moreover have "b_id ?b = next_id (map b_id (bids d))"
    by (simp add: write_fields_id blank_bid_def)
  ultimately show ?thesis by blast
qed

text \<open>
  C10. If the \<open>scopes\<close> of a create or update payload is missing, \<open>null\<close> or anything
  else that is not an array, sanitization gives the empty list and does not throw. A create
  whose other fields convert (the route builds the data for the storage layer without a
  throw) and are accepted by the storage layer answers 201, and the new bid has no scope.
  An update of an existing bid whose other fields convert and are accepted answers 200, and
  the bid has no scope left.
\<close>

theorem non_array_scopes_leave_no_scopes:
  "\<not> is_array raw \<and> get_prop (req_body req) ''scopes'' = Inr raw \<longrightarrow>
     sanitizeScopes raw = Inr []
     \<and> (post_data dp (req_body req) [] = Inr data \<and> check_data True d data = None
          \<and> scopes_owned d \<longrightarrow>
          (\<exists>body b d'. post_handler dp req d = (Reply 201 body, d')
              \<and> bids d' = bids d @ [b] \<and> scopes_of (b_id b) d' = []))
     \<and> (isFinite (StringToNumber (req_id req))
          \<and> as_int (JNum (StringToNumber (req_id req))) = Some i
          \<and> bid_findUnique i d = Some old
          \<and> put_data dp (req_body req) [] = Inr data' \<and> check_data False d data' = None \<longrightarrow>
          (\<exists>body d'. put_handler dp req d = (Reply 200 body, d') \<and> scopes_of i d' = []))"
proof (intro impI conjI)
  assume a: "\<not> is_array raw \<and> get_prop (req_body req) ''scopes'' = Inr raw"
  then show s: "sanitizeScopes raw = Inr []" by (simp add: sanitizeScopes_non_array)
  {
    assume c: "post_data dp (req_body req) [] = Inr data \<and> check_data True d data = None
          \<and> scopes_owned d"
    from a have g: "get_prop (req_body req) ''scopes'' = Inr raw" by simp
    from c have c0: "post_data dp (req_body req) [] = Inr data"
      and c1: "check_data True d data = None" by simp_all
    from post_succeeds [OF g s c0 c1] obtain body b where
      p: "post_handler dp req d = (Reply 201 body, create_scopes (b_id b) [] (d\<lparr>bids := bids d @ [b]\<rparr>))"
      and b: "b_id b = next_id (map b_id (bids d))" by blast
    have "scopes_of (b_id b) (d\<lparr>bids := bids d @ [b]\<rparr>) = []"
      using c b scopes_of_fresh by simp
    with p show "\<exists>body b d'. post_handler dp req d = (Reply 201 body, d')
              \<and> bids d' = bids d @ [b] \<and> scopes_of (b_id b) d' = []"
      by (auto simp: create_no_scopes)
  }
  {
    assume c: "isFinite (StringToNumber (req_id req))
          \<and> as_int (JNum (StringToNumber (req_id req))) = Some i
          \<and> bid_findUnique i d = Some old
          \<and> put_data dp (req_body req) [] = Inr data' \<and> check_data False d data' = None"
    from a have g: "get_prop (req_body req) ''scopes'' = Inr raw" by simp
    from c have "\<exists>body d'. put_handler dp req d = (Reply 200 body, d')"
      by (intro put_succeeds [OF _ _ g s, where data = data']) auto
    then obtain body d' where
      p: "put_handler dp req d = (Reply 200 body, d')" by blast
    from put_handler_ok [OF p] obtain j xs data2 b where
      j: "as_int (JNum (StringToNumber (req_id req))) = Some j"
      and xs: "sanitizeScopes (the_prop (req_body req) ''scopes'') = Inr xs"
      and pd: "put_data dp (req_body req) xs = Inr data2"
      and u: "bid_update j data2 (scope_deleteMany j d) = Inr (b, d')"
      by blast
    from a xs s have "xs = []" by (simp add: the_prop_get)
    moreover from j c have "j = i" by simp
    ultimately have "scopes_of i d' = []"
      using replaced_scopes(1) [OF u] put_data_scopes [OF pd] by simp
    with p show "\<exists>body d'. put_handler dp req d = (Reply 200 body, d') \<and> scopes_of i d' = []"
      by blast
  }
qed

lemma example_db_owned: "scopes_owned example_db"
  by (simp add: scopes_owned_def example_db_def example_bid_def)

theorem non_array_scopes_leave_no_scopes_witness:
  "get_prop null_scopes_payload ''scopes'' = Inr JNull
   \<and> sanitizeScopes JNull = Inr []
   \<and> (\<exists>body b d'. post_handler rejecting_parser (example_request MANAGER [] null_scopes_payload) example_db
                      = (Reply 201 body, d')
        \<and> bids d' = bids example_db @ [b] \<and> scopes_of (b_id b) d' = [])
   \<and> (\<exists>body d'. put_handler rejecting_parser (example_request MANAGER ''7'' null_scopes_payload) example_db
                    = (Reply 200 body, d')
        \<and> scopes_of 7 d' = [])
   \<and> length (scopes_of 7 example_db) = 3"
proof -
  have g: "get_prop (req_body (example_request MANAGER t null_scopes_payload)) ''scopes'' = Inr JNull" for t
    by (simp add: example_request_def null_scopes_payload_def example_scopes_prop)
  have n: "\<not> is_array JNull" by (simp add: is_array_def)
  have c1: "post_data rejecting_parser (req_body (example_request MANAGER [] null_scopes_payload)) []
              = Inr (example_data 1 [])"
    using example_post_data_Hot [of rejecting_parser 1]
    by (simp add: example_request_def null_scopes_payload_def)
  have c2: "put_data rejecting_parser (req_body (example_request MANAGER ''7'' null_scopes_payload)) []
              = Inr (example_data 1 [])"
    using example_put_data_Hot [of rejecting_parser 1]
    by (simp add: example_request_def null_scopes_payload_def)
  have c3: "check_data creating example_db (example_data 1 []) = None" for creating
    by (simp add: example_data_check)
  have i: "isFinite (StringToNumber (req_id (example_request MANAGER ''7'' null_scopes_payload)))
          \<and> as_int (JNum (StringToNumber (req_id (example_request MANAGER ''7'' null_scopes_payload)))) = Some 7"
    by (simp add: example_request_def number_7 isFinite_def as_int_7)
  have three: "length (scopes_of 7 example_db) = 3"
    by (simp add: scopes_of_def example_db_def)
  from non_array_scopes_leave_no_scopes
         [of JNull "example_request MANAGER [] null_scopes_payload" rejecting_parser "example_data 1 []" example_db]
       g n c1 c3 example_db_owned
  have post: "sanitizeScopes JNull = Inr []
     \<and> (\<exists>body b d'. post_handler rejecting_parser (example_request MANAGER [] null_scopes_payload) example_db
                      = (Reply 201 body, d')
        \<and> bids d' = bids example_db @ [b] \<and> scopes_of (b_id b) d' = [])"
    by simp
  from non_array_scopes_leave_no_scopes
         [of JNull "example_request MANAGER ''7'' null_scopes_payload" rejecting_parser _ example_db
             7 example_bid "example_data 1 []"]
       g n c2 c3 i example_bid_found
  have put: "\<exists>body d'. put_handler rejecting_parser (example_request MANAGER ''7'' null_scopes_payload) example_db
                    = (Reply 200 body, d')
        \<and> scopes_of 7 d' = []"
    by simp
  from g [of "[]"] have "get_prop null_scopes_payload ''scopes'' = Inr JNull"
    by (simp add: example_request_def)
  with post put three show ?thesis by simp
qed

text \<open>
  The other fields of the payload are converted before the storage layer is called: a
  project name for which \<open>String\<close> throws ends the create and the update with a
  \<open>TypeError\<close>, whatever the \<open>scopes\<close> are, and no table changes.
\<close>

lemma unconvertible_name_throws:
  "post_handler dp (example_request role [] unconvertible_name_payload) d = (NextError TypeError, d)"
  "put_handler dp (example_request role ''7'' unconvertible_name_payload) d = (NextError TypeError, d)"
  by (simp_all add: post_handler_def put_handler_def example_request_def unconvertible_name_payload_def
      get_prop_def the_prop_def sanitizeScopes_def post_data_def put_data_def coalesce_def nullish_def
      number_7 isFinite_def)

section \<open>Permissions\<close>

lemma ROLE_PERMS_matrix: "a \<in> set (ROLE_PERMS r) \<longleftrightarrow> matrix r a"
  by (cases r; cases a) simp_all

lemma can_allowed: "can req a = allowed req a"
  by (simp add: can_def allowed_def ROLE_PERMS_matrix split: option.splits)

lemma requirePerm_allowed: "requirePerm a req next = (if allowed req a then next else forbidden)"
  by (simp add: requirePerm_def can_allowed forbidden_def)













section \<open>Redaction\<close>

lemma map_of_replace:
  "map_of (map (\<lambda>(a, b). if a = k then (a, v) else (a, b)) kvs) k'
     = (if k' = k then (case map_of kvs k of None \<Rightarrow> None | Some x \<Rightarrow> Some v) else map_of kvs k')"
proof (induction kvs)
  case Nil
  show ?case by simp
next
  case (Cons kv kvs)
  obtain a b where kv: "kv = (a, b)" by (cases kv)
  show ?case
  proof (cases "a = k")
    case True
    with kv Cons show ?thesis by (cases "k' = k") simp_all
  next
    case False
    with kv Cons show ?thesis by (cases "k' = k") simp_all
  qed
qed

lemma map_of_obj_set: "map_of (obj_set k v kvs) k' = (if k' = k then Some v else map_of kvs k')"
proof (cases "k \<in> fst ` set kvs")
  case True
  then obtain x where "map_of kvs k = Some x"
    by (metis map_of_eq_None_iff not_Some_eq)
  with True show ?thesis by (simp add: obj_set_def map_of_replace)
next
  case False
  then have "map_of kvs k = None" by (simp add: map_of_eq_None_iff)
  with False show ?thesis by (simp add: obj_set_def map_add_def split: option.splits)
qed

lemma map_fst_obj_set:
  "map fst (obj_set k v kvs) = (if k \<in> fst ` set kvs then map fst kvs else map fst kvs @ [k])"
proof -
  have "map fst (map (\<lambda>(a, b). if a = k then (a, v) else (a, b)) kvs) = map fst kvs"
    by (induction kvs) auto
  then show ?thesis by (simp add: obj_set_def)
qed

lemma distinct_obj_set: "distinct (map fst kvs) \<Longrightarrow> distinct (map fst (obj_set k v kvs))"
  by (auto simp: map_fst_obj_set)

lemma map_of_json_members_None:
  "k \<notin> fst ` set kvs \<Longrightarrow>
   map_of (map (\<lambda>(a, b). (a, json b)) (filter (\<lambda>(a, b). b \<noteq> JUndefined \<and> \<not> is_function b) kvs)) k = None"
  by (induction kvs) auto

lemma map_of_json_members:
  "distinct (map fst kvs) \<Longrightarrow>
   map_of (map (\<lambda>(a, b). (a, json b)) (filter (\<lambda>(a, b). b \<noteq> JUndefined \<and> \<not> is_function b) kvs)) k
     = (case map_of kvs k of
          None \<Rightarrow> None
        | Some v \<Rightarrow> if v \<noteq> JUndefined \<and> \<not> is_function v then Some (json v) else None)"
proof (induction kvs)
  case Nil
  show ?case by simp
next
  case (Cons kv kvs)
  obtain a b where kv: "kv = (a, b)" by (cases kv)
  from Cons.prems kv have "a \<notin> fst ` set kvs" by auto
  then have "map_of (map (\<lambda>(a, b). (a, json b)) (filter (\<lambda>(a, b). b \<noteq> JUndefined \<and> \<not> is_function b) kvs)) a = None"
    by (rule map_of_json_members_None)
  with Cons kv show ?case by auto
qed

lemma json_obj:
  "json (JObj kvs)
     = JObj (map (\<lambda>(k, v). (k, json v)) (filter (\<lambda>(k, v). v \<noteq> JUndefined \<and> \<not> is_function v) kvs))"
  by (simp add: json.simps)

lemma field_json_obj:
  "distinct (map fst kvs) \<Longrightarrow>
   field (json (JObj kvs)) k
     = (case map_of kvs k of
          None \<Rightarrow> None
        | Some v \<Rightarrow> if v \<noteq> JUndefined \<and> \<not> is_function v then Some (json v) else None)"
  by (simp add: json_obj field_def map_of_json_members)

lemma list_row_keys:
  "map fst (list_row ta ag d b)
     = [''id'', ''projectName'', ''clientName'', ''amount'', ''proposalDate'', ''dueDate'',
        ''followUpOn'', ''scopeStatus'', ''bidStatus'']"
  by (simp add: list_row_def)

lemma bid_with_relations_keys:
  "map fst (bid_with_relations b d)
     = [''id'', ''projectName'', ''clientCompanyId'', ''contactId'', ''proposalDate'', ''dueDate'',
        ''followUpOn'', ''jobLocation'', ''leadSource'', ''bidStatus'',
        ''clientCompany'', ''contact'', ''scopes'', ''notes'', ''tags'', ''attachments'']"
  by (simp add: bid_with_relations_def bid_columns_def)

lemma redacted_row_fields:
  assumes "distinct (map fst row)"
  shows "field (json (JObj (obj_set ''scopes'' JUndefined (obj_set ''amount'' JNull row)))) ''amount'' = Some JNull"
    and "field (json (JObj (obj_set ''scopes'' JUndefined (obj_set ''amount'' JNull row)))) ''scopes'' = None"
proof -
  have d: "distinct (map fst (obj_set ''scopes'' JUndefined (obj_set ''amount'' JNull row)))"
    using assms by (intro distinct_obj_set)
  show "field (json (JObj (obj_set ''scopes'' JUndefined (obj_set ''amount'' JNull row)))) ''amount'' = Some JNull"
    by (subst field_json_obj [OF d]) (simp add: map_of_obj_set is_function_def json.simps)
  show "field (json (JObj (obj_set ''scopes'' JUndefined (obj_set ''amount'' JNull row)))) ''scopes'' = None"
    by (subst field_json_obj [OF d]) (simp add: map_of_obj_set)
qed

lemma viewer_rows:
  assumes "role_of req = Some VIEWER" and "row \<in> set (list_rows ta ag req d found)"
  shows "field (json (JObj row)) ''amount'' = Some JNull \<and> field (json (JObj row)) ''scopes'' = None"
proof -
  from assms obtain b where
    "row = obj_set ''scopes'' JUndefined (obj_set ''amount'' JNull (list_row ta ag d b))"
    by (auto simp: list_rows_def redactForViewer_def)
  moreover have "distinct (map fst (list_row ta ag d b))" by (simp add: list_row_keys)
  ultimately show ?thesis using redacted_row_fields by simp
qed

lemma get_handler_found:
  assumes "isFinite (StringToNumber (req_id req))"
    and "as_int (JNum (StringToNumber (req_id req))) = Some i"
    and "bid_findUnique i d = Some b"
  shows "get_handler req d =
           (Reply 200 (json (JObj (if role_of req = Some VIEWER
                                   then obj_set ''scopes'' JUndefined (bid_with_relations b d)
                                   else bid_with_relations b d))), d)"
  using assms by (simp add: get_handler_def Let_def)

lemma single_record_fields:
  "field (json (JObj (bid_with_relations b d))) ''amount'' = None"
  "field (json (JObj (bid_with_relations b d))) ''scopes''
     = Some (json (JArr (map scope_object (scopes_of (b_id b) d))))"
  "field (json (JObj (obj_set ''scopes'' JUndefined (bid_with_relations b d)))) ''amount'' = None"
  "field (json (JObj (obj_set ''scopes'' JUndefined (bid_with_relations b d)))) ''scopes'' = None"
  "k \<noteq> ''scopes'' \<Longrightarrow>
     field (json (JObj (obj_set ''scopes'' JUndefined (bid_with_relations b d)))) k
       = field (json (JObj (bid_with_relations b d))) k"
proof -
  have d1: "distinct (map fst (bid_with_relations b d))" by (simp add: bid_with_relations_keys)
  then have d2: "distinct (map fst (obj_set ''scopes'' JUndefined (bid_with_relations b d)))"
    by (rule distinct_obj_set)
  have "''amount'' \<notin> set (map fst (bid_with_relations b d))"
    by (simp add: bid_with_relations_keys)
  then have none: "map_of (bid_with_relations b d) ''amount'' = None"
    by (simp add: map_of_eq_None_iff)
  have sc: "map_of (bid_with_relations b d) ''scopes'' = Some (JArr (map scope_object (scopes_of (b_id b) d)))"
    by (simp add: bid_with_relations_def bid_columns_def)
  show "field (json (JObj (bid_with_relations b d))) ''amount'' = None"
    by (subst field_json_obj [OF d1]) (simp add: none)
  show "field (json (JObj (bid_with_relations b d))) ''scopes''
     = Some (json (JArr (map scope_object (scopes_of (b_id b) d))))"
    by (subst field_json_obj [OF d1]) (simp add: sc is_function_def)
  show "field (json (JObj (obj_set ''scopes'' JUndefined (bid_with_relations b d)))) ''amount'' = None"
    by (subst field_json_obj [OF d2]) (simp add: map_of_obj_set none)
  show "field (json (JObj (obj_set ''scopes'' JUndefined (bid_with_relations b d)))) ''scopes'' = None"
    by (subst field_json_obj [OF d2]) (simp add: map_of_obj_set)
  show "field (json (JObj (obj_set ''scopes'' JUndefined (bid_with_relations b d)))) k
       = field (json (JObj (bid_with_relations b d))) k" if "k \<noteq> ''scopes''"
    using that by (subst field_json_obj [OF d2], subst field_json_obj [OF d1]) (simp add: map_of_obj_set)
qed

lemma handlers_ignore_caller:
  "post_handler dp (req\<lparr>req_user := u\<rparr>) = post_handler dp req"
  "put_handler dp (req\<lparr>req_user := u\<rparr>) = put_handler dp req"
  by (simp_all add: post_handler_def put_handler_def fun_eq_iff Let_def
      cong: sum.case_cong prod.case_cong if_cong)

text \<open>
  C7, as amended. In the list response a VIEWER gets every record with \<open>amount\<close> null and
  without a \<open>scopes\<close> field, and every other role gets the rows as they were projected.
  In the single-record response a VIEWER gets the record without its \<open>scopes\<close> field and
  every other field as stored, every other role gets the full record with its scopes; a
  single record has no \<open>amount\<close> field for any role. The create and update handlers do not
  depend on who calls them.
\<close>

theorem viewer_redaction:
  "(role_of req = Some VIEWER \<longrightarrow>
      (\<forall>row \<in> set (list_rows ta ag req d found).
          field (json (JObj row)) ''amount'' = Some JNull \<and> field (json (JObj row)) ''scopes'' = None))
   \<and> (role_of req \<noteq> Some VIEWER \<longrightarrow> list_rows ta ag req d found = map (list_row ta ag d) found)
   \<and> (isFinite (StringToNumber (req_id req))
        \<and> as_int (JNum (StringToNumber (req_id req))) = Some i
        \<and> bid_findUnique i d = Some b \<longrightarrow>
        (\<exists>body. get_handler req d = (Reply 200 body, d)
           \<and> field body ''amount'' = None
           \<and> (role_of req = Some VIEWER \<longrightarrow>
                field body ''scopes'' = None
                \<and> (\<forall>k. k \<noteq> ''scopes'' \<longrightarrow>
                       field body k = field (json (JObj (bid_with_relations b d))) k))
           \<and> (role_of req \<noteq> Some VIEWER \<longrightarrow>
                body = json (JObj (bid_with_relations b d))
                \<and> field body ''scopes'' = Some (json (JArr (map scope_object (scopes_of (b_id b) d)))))))
   \<and> post_handler dp (req\<lparr>req_user := u\<rparr>) = post_handler dp req
   \<and> put_handler dp (req\<lparr>req_user := u\<rparr>) = put_handler dp req"
proof (intro conjI impI)
  assume "role_of req = Some VIEWER"
  then show "\<forall>row \<in> set (list_rows ta ag req d found).
          field (json (JObj row)) ''amount'' = Some JNull \<and> field (json (JObj row)) ''scopes'' = None"
    using viewer_rows by blast
next
  assume "role_of req \<noteq> Some VIEWER"
  then show "list_rows ta ag req d found = map (list_row ta ag d) found"
    by (simp add: list_rows_def redactForViewer_def)
next
  assume a: "isFinite (StringToNumber (req_id req))
        \<and> as_int (JNum (StringToNumber (req_id req))) = Some i
        \<and> bid_findUnique i d = Some b"
  let ?body = "json (JObj (if role_of req = Some VIEWER
                           then obj_set ''scopes'' JUndefined (bid_with_relations b d)
                           else bid_with_relations b d))"
  have "get_handler req d = (Reply 200 ?body, d)"
    using a by (intro get_handler_found) auto
  moreover have "field ?body ''amount'' = None"
    using single_record_fields(1,3) [of b d] by (cases "role_of req = Some VIEWER") auto
  moreover have "role_of req = Some VIEWER \<longrightarrow>
                field ?body ''scopes'' = None
                \<and> (\<forall>k. k \<noteq> ''scopes'' \<longrightarrow>
                       field ?body k = field (json (JObj (bid_with_relations b d))) k)"
    using single_record_fields(4) [of b d] single_record_fields(5) [of _ b d] by auto
  moreover have "role_of req \<noteq> Some VIEWER \<longrightarrow>
                ?body = json (JObj (bid_with_relations b d))
                \<and> field ?body ''scopes'' = Some (json (JArr (map scope_object (scopes_of (b_id b) d))))"
    using single_record_fields(2) [of b d] by auto
  ultimately show "\<exists>body. get_handler req d = (Reply 200 body, d)
           \<and> field body ''amount'' = None
           \<and> (role_of req = Some VIEWER \<longrightarrow>
                field body ''scopes'' = None
                \<and> (\<forall>k. k \<noteq> ''scopes'' \<longrightarrow>
                       field body k = field (json (JObj (bid_with_relations b d))) k))
           \<and> (role_of req \<noteq> Some VIEWER \<longrightarrow>
                body = json (JObj (bid_with_relations b d))
                \<and> field body ''scopes'' = Some (json (JArr (map scope_object (scopes_of (b_id b) d)))))"
    by blast
next
  show "post_handler dp (req\<lparr>req_user := u\<rparr>) = post_handler dp req"
    by (rule handlers_ignore_caller)
next
  show "put_handler dp (req\<lparr>req_user := u\<rparr>) = put_handler dp req"
    by (rule handlers_ignore_caller)
qed

lemma example_get_found:
  "isFinite (StringToNumber (req_id (example_request role ''7'' body)))
   \<and> as_int (JNum (StringToNumber (req_id (example_request role ''7'' body)))) = Some 7
   \<and> bid_findUnique 7 example_db = Some example_bid"
  by (simp add: example_request_def number_7 isFinite_def as_int_7 example_bid_found)

lemma example_role: "role_of (example_request role i body) = Some role"
  by (simp add: role_of_def example_request_def)

text \<open>
  C7, counterexample to the claim as stated: the single record that a VIEWER reads has no
  \<open>amount\<close> field at all, so the field is not null.
\<close>

theorem single_record_has_no_amount:
  "reply_status (fst (GET_bid (example_request VIEWER ''7'' JNull) example_db)) = Some 200
   \<and> field (reply_body (fst (GET_bid (example_request VIEWER ''7'' JNull) example_db))) ''amount'' = None
   \<and> field (reply_body (fst (GET_bid (example_request VIEWER ''7'' JNull) example_db))) ''amount''
        \<noteq> Some JNull"
proof -
  let ?req = "example_request VIEWER ''7'' JNull"
  have "allowed ?req Read" by (simp add: allowed_def example_role)
  then have "GET_bid ?req example_db = get_handler ?req example_db"
    by (simp add: GET_bid_def requirePerm_allowed)
  also have "\<dots> = (Reply 200 (json (JObj (obj_set ''scopes'' JUndefined
                                  (bid_with_relations example_bid example_db)))), example_db)"
    using get_handler_found [of ?req 7 example_db example_bid] example_get_found [of VIEWER JNull]
    by (simp add: example_role)
  finally show ?thesis
    by (simp add: reply_status_def reply_body_def single_record_fields(3))
qed

theorem viewer_redaction_witness:
  "map (\<lambda>row. (field (json (JObj row)) ''amount'', field (json (JObj row)) ''scopes''))
       (list_rows (\<lambda>xs. JNum (Fin 600)) (\<lambda>xs. JStr ''Pending'')
          (example_request VIEWER [] JNull) example_db [example_bid])
     = [(Some JNull, None)]
   \<and> map (\<lambda>row. field (json (JObj row)) ''amount'')
       (list_rows (\<lambda>xs. JNum (Fin 600)) (\<lambda>xs. JStr ''Pending'')
          (example_request MANAGER [] JNull) example_db [example_bid])
     = [Some (JNum (Fin 600))]
   \<and> (\<exists>body. get_handler (example_request VIEWER ''7'' JNull) example_db = (Reply 200 body, example_db)
         \<and> field body ''amount'' = None \<and> field body ''scopes'' = None
         \<and> field body ''bidStatus'' = Some (JStr ''Active''))
   \<and> (\<exists>body. get_handler (example_request MANAGER ''7'' JNull) example_db = (Reply 200 body, example_db)
         \<and> field body ''amount'' = None
         \<and> field body ''scopes'' = Some (json (JArr (map scope_object (scopes_of 7 example_db)))))"
proof -
  let ?ta = "\<lambda>xs::scope list. JNum (Fin 600)"
  let ?ag = "\<lambda>xs::scope list. JStr ''Pending''"
  let ?v = "example_request VIEWER [] JNull"
  let ?m = "example_request MANAGER [] JNull"
  let ?v7 = "example_request VIEWER ''7'' JNull"
  let ?m7 = "example_request MANAGER ''7'' JNull"
  note t = viewer_redaction
  have one: "\<exists>row. list_rows ?ta ?ag ?v example_db [example_bid] = [row]"
    by (simp add: list_rows_def redactForViewer_def)
  from t [of ?v ?ta ?ag example_db "[example_bid]" 7 example_bid rejecting_parser None] one
  have l1: "map (\<lambda>row. (field (json (JObj row)) ''amount'', field (json (JObj row)) ''scopes''))
       (list_rows ?ta ?ag ?v example_db [example_bid]) = [(Some JNull, None)]"
    by (auto simp: example_role)
  from t [of ?m ?ta ?ag example_db "[example_bid]" 7 example_bid rejecting_parser None]
  have "list_rows ?ta ?ag ?m example_db [example_bid] = [list_row ?ta ?ag example_db example_bid]"
    by (simp add: example_role)
  moreover have "field (json (JObj (list_row ?ta ?ag example_db example_bid))) ''amount'' = Some (JNum (Fin 600))"
    by (subst field_json_obj) (simp_all add: list_row_keys, simp add: list_row_def is_function_def isFinite_def json.simps)
  ultimately have l2: "map (\<lambda>row. field (json (JObj row)) ''amount'')
       (list_rows ?ta ?ag ?m example_db [example_bid]) = [Some (JNum (Fin 600))]"
    by simp
  have st: "field (json (JObj (bid_with_relations example_bid example_db))) ''bidStatus'' = Some (JStr ''Active'')"
    by (subst field_json_obj) (simp_all add: bid_with_relations_keys,
        simp add: bid_with_relations_def bid_columns_def is_function_def example_bid_def json.simps)
  have f7: "isFinite (StringToNumber (req_id (example_request role ''7'' JNull)))
        \<and> as_int (JNum (StringToNumber (req_id (example_request role ''7'' JNull)))) = Some 7
        \<and> bid_findUnique 7 example_db = Some example_bid" for role
    by (rule example_get_found)
  from t [of ?v7 ?ta ?ag example_db "[]" 7 example_bid rejecting_parser None] f7 [of VIEWER]
  obtain body1 where b1: "get_handler ?v7 example_db = (Reply 200 body1, example_db)"
    and a1: "field body1 ''amount'' = None"
    and s1: "field body1 ''scopes'' = None"
    and k1: "\<forall>k. k \<noteq> ''scopes'' \<longrightarrow>
               field body1 k = field (json (JObj (bid_with_relations example_bid example_db))) k"
    by (auto simp: example_role)
  from k1 have "field body1 ''bidStatus'' = Some (JStr ''Active'')"
    by (simp add: st)
  with b1 a1 s1
  have g1: "\<exists>body. get_handler ?v7 example_db = (Reply 200 body, example_db)
         \<and> field body ''amount'' = None \<and> field body ''scopes'' = None
         \<and> field body ''bidStatus'' = Some (JStr ''Active'')"
    by blast
  from t [of ?m7 ?ta ?ag example_db "[]" 7 example_bid rejecting_parser None] f7 [of MANAGER]
  have g2: "\<exists>body. get_handler ?m7 example_db = (Reply 200 body, example_db)
         \<and> field body ''amount'' = None
         \<and> field body ''scopes'' = Some (json (JArr (map scope_object (scopes_of 7 example_db))))"
    by (auto simp: example_role example_bid_def)
  from l1 l2 g1 g2 show ?thesis by simp
qed

section \<open>Scope costs\<close>





































lemma number_Infinity: "StringToNumber ''Infinity'' = PosInf"
  by (simp add: str_eval num_eval)

text \<open>
  The two cases that the amended C5 leaves out. The text \<open>Infinity\<close> is a cost that
  \<open>sanitizeScopes\<close> keeps, where \<open>toNumberOrZero\<close> gives 0; and a cost that is an object
  with a \<open>toString\<close> member of its own makes \<open>sanitizeScopes\<close> throw.
\<close>

lemma sanitize_keeps_Infinity:
  "sanitize_one (JObj [(''name'', JStr ''Roof''), (''cost'', JStr ''Infinity'')])
     = Inr \<lparr> si_name = ''Roof'', si_cost = PosInf, si_status = ''Pending'' \<rparr>"
  by (simp add: sanitize_one_def the_prop_def get_prop_def nullish_def coalesce_def
      js_Number_def number_Infinity num_truthy_def VALID_SCOPE_STATUS_def trim_id is_ws_def
      object_prototype_keys_def)

lemma import_drops_Infinity: "toNumberOrZero (JStr ''Infinity'') = Inr (Fin 0)"
  using number_Infinity by (simp add: toNumberOrZero_text strip_separators_def isFinite_def)

lemma sanitize_throws_on_own_toString:
  "sanitizeScopes (JArr [JObj [(''name'', JStr ''Roof''), (''cost'', JObj [(''toString'', JNum (Fin 1))])]])
     = Inl TypeError"
  by (simp add: sanitizeScopes_def sanitize_one_def the_prop_def get_prop_def nullish_def coalesce_def
      js_Number_def)

section \<open>Committing the groups of an import\<close>

lemma commit_group_bad:
  "bad_dates dp g \<Longrightarrow> commit_group dp g d = (Inl (Text (invalid_dates_message g)), d)"
  by (auto simp: bad_dates_def commit_group_def split: option.splits)

lemma group_outcome_bad:
  "bad_dates dp g \<Longrightarrow> group_outcome dp (k, g) d = ([], [(k, Text (invalid_dates_message g))], d)"
  by (simp add: group_outcome_def commit_group_bad)

lemma commit_step_outcome:
  "commit_step dp st kg =
     (case group_outcome dp kg (st_store st) of
        (R, E, d') \<Rightarrow> \<lparr> st_results = st_results st @ R, st_errors = st_errors st @ E, st_store = d' \<rparr>)"
  by (cases "commit_group dp (snd kg) (st_store st)")
     (auto simp: commit_step_def group_outcome_def split: sum.splits)

lemma commit_from_run:
  "commit_from dp st gs =
     (case run dp gs (st_store st) of
        (R, E, d') \<Rightarrow> \<lparr> st_results = st_results st @ R, st_errors = st_errors st @ E, st_store = d' \<rparr>)"
proof (induction gs arbitrary: st)
  case Nil
  show ?case by (simp add: commit_from_def)
next
  case (Cons kg gs)
  have "commit_from dp st (kg # gs) = commit_from dp (commit_step dp st kg) gs"
    by (simp add: commit_from_def)
  then show ?case
    by (simp add: Cons.IH commit_step_outcome split: prod.splits)
qed

lemma commit_groups_run:
  "commit_groups dp gs d =
     (case run dp gs d of (R, E, d') \<Rightarrow> \<lparr> st_results = R, st_errors = E, st_store = d' \<rparr>)"
  using commit_from_run [of dp "\<lparr> st_results = [], st_errors = [], st_store = d \<rparr>" gs]
  by (simp add: commit_groups_def commit_from_def)

lemma run_append:
  "run dp (gs1 @ gs2) d =
     (case run dp gs1 d of
        (R1, E1, d1) \<Rightarrow> (case run dp gs2 d1 of (R2, E2, d2) \<Rightarrow> (R1 @ R2, E1 @ E2, d2)))"
  by (induction gs1 arbitrary: d) (auto split: prod.splits)

lemma run_bad_group:
  assumes "bad_dates dp g" and "run dp gs1 d = (R1, E1, d1)" and "run dp gs2 d1 = (R2, E2, d2)"
  shows "run dp (gs1 @ gs2) d = (R1 @ R2, E1 @ E2, d2)"
    and "run dp (gs1 @ (k, g) # gs2) d = (R1 @ R2, E1 @ (k, Text (invalid_dates_message g)) # E2, d2)"
  using assms by (simp_all add: run_append group_outcome_bad)

lemma upsert_company_bids: "bids (snd (upsert_company n d)) = bids d"
  by (simp add: upsert_company_def company_create_def Let_def split: option.splits)

lemma upsert_contact_bids: "bids (snd (upsert_contact n c d)) = bids d"
  by (simp add: upsert_contact_def contact_create_def Let_def split: option.splits)

lemma bid_create_bids:
  assumes "bid_create data d = Inr (b, d')"
  shows "bids d' = bids d @ [b]"
  using assms by (auto simp: bid_create_def create_scopes_def Let_def split: option.splits)

lemma commit_group_bids:
  assumes "commit_group dp g d = (r, d')"
  shows "bids d' = bids d @ (case r of Inr b \<Rightarrow> [b] | Inl m \<Rightarrow> [])"
proof (cases "bad_dates dp g")
  case True
  with assms show ?thesis by (auto simp: commit_group_bad)
next
  case False
  then obtain p q where pq: "parseDateLoose dp (Some (g_proposalDate g)) = Some p"
    "parseDateLoose dp (Some (g_dueDate g)) = Some q"
    by (auto simp: bad_dates_def)
  obtain company d1 where c: "upsert_company (g_clientCompany g) d = (company, d1)"
    by (cases "upsert_company (g_clientCompany g) d")
  obtain contactId d2 where k: "upsert_contact (g_contactName g) (c_id company) d1 = (contactId, d2)"
    by (cases "upsert_contact (g_contactName g) (c_id company) d1")
  have s2: "bids d2 = bids d"
    using upsert_company_bids [of "g_clientCompany g" d] upsert_contact_bids [of "g_contactName g" "c_id company" d1] c k
    by simp
  show ?thesis
  proof (cases "bid_create (import_bid_data g (c_id company) contactId p q) d2")
    case (Inl e)
    with assms pq c k s2 show ?thesis by (auto simp: commit_group_def)
  next
    case (Inr bd)
    obtain b d3 where bd: "bd = (b, d3)" by (cases bd)
    with Inr assms pq c k have "d' = d3" "r = Inr b" by (auto simp: commit_group_def)
    with bid_create_bids [of _ d2 b d3] Inr bd s2 show ?thesis by simp
  qed
qed

lemma group_outcome_counts:
  assumes "group_outcome dp kg d = (R, E, d')"
  shows "bids d' = bids d @ R \<and> length R + length E = 1"
proof -
  obtain r d0 where c: "commit_group dp (snd kg) d = (r, d0)"
    by (cases "commit_group dp (snd kg) d")
  from commit_group_bids [OF c] c assms show ?thesis
    by (cases r) (auto simp: group_outcome_def)
qed

lemma run_counts:
  "run dp gs d = (R, E, d') \<Longrightarrow> bids d' = bids d @ R \<and> length R + length E = length gs"
proof (induction gs arbitrary: d R E d')
  case Nil
  then show ?case by simp
next
  case (Cons kg gs)
  obtain R1 E1 d1 where o: "group_outcome dp kg d = (R1, E1, d1)"
    by (cases "group_outcome dp kg d") auto
  obtain R2 E2 d2 where r: "run dp gs d1 = (R2, E2, d2)"
    by (cases "run dp gs d1") auto
  from Cons.prems o r have e: "R = R1 @ R2" "E = E1 @ E2" "d' = d2" by simp_all
  from group_outcome_counts [OF o] Cons.IH [OF r] e show ?case by simp
qed

text \<open>
  C3. A group whose proposal date or due date parses to \<open>null\<close> fails with the message that
  quotes both raw strings and leaves every table as it was; wherever it stands among the
  groups, the bids created and the tables are the same as without it, and the errors are
  the same with its entry added in its place. An import with a file always answers with
  the number of bids created and the list of errors: the created bids are exactly the bids
  added to the table, and every group is either counted or reported.
\<close>

theorem bad_dates_fail_one_group_only:
  "(bad_dates dp g \<longrightarrow>
      commit_group dp g d = (Inl (Text (invalid_dates_message g)), d)
      \<and> st_results (commit_groups dp (gs1 @ (k, g) # gs2) d)
          = st_results (commit_groups dp (gs1 @ gs2) d)
      \<and> st_store (commit_groups dp (gs1 @ (k, g) # gs2) d)
          = st_store (commit_groups dp (gs1 @ gs2) d)
      \<and> (\<exists>E1 E2. st_errors (commit_groups dp (gs1 @ gs2) d) = E1 @ E2
             \<and> st_errors (commit_groups dp (gs1 @ (k, g) # gs2) d)
                 = E1 @ (k, Text (invalid_dates_message g)) # E2))
   \<and> invalid_dates_message g
       = ''Invalid date(s). proposalDate='' @ dquote @ g_proposalDate g @ dquote
           @ '' dueDate='' @ dquote @ g_dueDate g @ dquote @ ''. Use YYYY-MM-DD or DD/MM/YYYY.''
   \<and> (\<exists>n es d'. import_bids dp (Some rows) d = (Imported n es, d')
         \<and> n = length (st_results (commit_groups dp (group_rows rows) d))
         \<and> es = st_errors (commit_groups dp (group_rows rows) d)
         \<and> bids d' = bids d @ st_results (commit_groups dp (group_rows rows) d)
         \<and> n + length es = length (group_rows rows))"
proof (intro conjI impI)
  assume b: "bad_dates dp g"
  then show "commit_group dp g d = (Inl (Text (invalid_dates_message g)), d)"
    by (rule commit_group_bad)
  obtain R1 E1 d1 where r1: "run dp gs1 d = (R1, E1, d1)" by (cases "run dp gs1 d") auto
  obtain R2 E2 d2 where r2: "run dp gs2 d1 = (R2, E2, d2)" by (cases "run dp gs2 d1") auto
  note w = run_bad_group [OF b r1 r2]
  show "st_results (commit_groups dp (gs1 @ (k, g) # gs2) d) = st_results (commit_groups dp (gs1 @ gs2) d)"
    by (simp add: commit_groups_run w)
  show "st_store (commit_groups dp (gs1 @ (k, g) # gs2) d) = st_store (commit_groups dp (gs1 @ gs2) d)"
    by (simp add: commit_groups_run w)
  have "st_errors (commit_groups dp (gs1 @ gs2) d) = E1 @ E2"
    and "st_errors (commit_groups dp (gs1 @ (k, g) # gs2) d) = E1 @ (k, Text (invalid_dates_message g)) # E2"
    by (simp_all add: commit_groups_run w)
  then show "\<exists>E1 E2. st_errors (commit_groups dp (gs1 @ gs2) d) = E1 @ E2
             \<and> st_errors (commit_groups dp (gs1 @ (k, g) # gs2) d)
                 = E1 @ (k, Text (invalid_dates_message g)) # E2"
    by blast
next
  show "invalid_dates_message g
       = ''Invalid date(s). proposalDate='' @ dquote @ g_proposalDate g @ dquote
           @ '' dueDate='' @ dquote @ g_dueDate g @ dquote @ ''. Use YYYY-MM-DD or DD/MM/YYYY.''"
    by (simp add: invalid_dates_message_def)
next
  obtain R E d' where r: "run dp (group_rows rows) d = (R, E, d')"
    by (cases "run dp (group_rows rows) d") auto
  from run_counts [OF r] have "bids d' = bids d @ R" "length R + length E = length (group_rows rows)"
    by simp_all
  then show "\<exists>n es d'. import_bids dp (Some rows) d = (Imported n es, d')
         \<and> n = length (st_results (commit_groups dp (group_rows rows) d))
         \<and> es = st_errors (commit_groups dp (group_rows rows) d)
         \<and> bids d' = bids d @ st_results (commit_groups dp (group_rows rows) d)
         \<and> n + length es = length (group_rows rows)"
    by (simp add: import_bids_def Let_def commit_groups_run r)
qed

lemma not_a_date: "parseDateLoose rejecting_parser (Some ''not a date'') = None"
proof -
  have "\<not> iso_prefix ''not a date''" by (simp add: iso_prefix_def is_digit_def)
  moreover have "match_dmy ''not a date'' = None" by (simp add: match_dmy_def is_digit_def Let_def)
  ultimately show ?thesis
    using parseDateLoose_fallback [of "''not a date''" rejecting_parser]
    by (simp add: trim_id is_ws_def rejecting_parser_def)
qed

lemma mixed_rows_grouped:
  "group_rows mixed_rows = [(''Depot||Acme'', depot_group), (''Mill||Acme'', mill_group)]"
  by (simp add: mixed_rows_def depot_group_def mill_group_def group_eval str_eval clean_active
      cost_100 cost_200 cleanStatus_def opt_value_def)

theorem bad_dates_fail_one_group_only_witness:
  "bad_dates rejecting_parser mill_group
   \<and> commit_group rejecting_parser mill_group empty_db
       = (Inl (Text (invalid_dates_message mill_group)), empty_db)
   \<and> group_rows mixed_rows = [(''Depot||Acme'', depot_group), (''Mill||Acme'', mill_group)]
   \<and> fst (import_bids rejecting_parser (Some mixed_rows) empty_db)
       = Imported 1 [(''Mill||Acme'', Text (invalid_dates_message mill_group))]
   \<and> map b_projectName (bids (snd (import_bids rejecting_parser (Some mixed_rows) empty_db))) = [''Depot'']"
proof -
  let ?b = "\<lparr> b_id = 1, b_projectName = ''Depot'', b_clientCompanyId = 1,
                         b_contactId = None, b_proposalDate = Some 1709596800000,
                         b_dueDate = Some 1711929600000, b_followUpOn = None,
                         b_jobLocation = None, b_leadSource = None, b_bidStatus = ''Active'' \<rparr>"
  let ?d = "\<lparr> companies = [\<lparr> c_id = 1, c_name = ''Acme'' \<rparr>], contacts = [],
               bids = [?b],
               scopes = [\<lparr> s_id = 1, s_bidId = 1, s_name = ''Roof'', s_cost = Fin 100, s_status = ''Pending'' \<rparr>],
               noteRows = [], attachments = [], bidTags = [] \<rparr>"
  have bad: "bad_dates rejecting_parser mill_group"
    by (simp add: bad_dates_def mill_group_def not_a_date)
  have sc: "scopeCreates depot_group = [\<lparr> si_name = ''Roof'', si_cost = Fin 100, si_status = ''Pending'' \<rparr>]"
    by (simp add: depot_group_def scopeCreates_def toNumberOrZero_def isFinite_def cleanStatus_def
        str_or_empty_def trim_def)
  have c: "commit_group rejecting_parser depot_group empty_db = (Inr ?b, ?d)"
    using sc
    by (simp add: depot_group_def commit_group_def date_05_03_2024 date_01_04_2024 empty_db_def
        upsert_company_def company_findFirst_def company_create_def upsert_contact_def
        import_bid_data_def or_default_def truthy_def next_id_def
        bid_create_def check_data_def check_ref_def check_date_def check_text_def check_status_def
        as_int_def nullish_def bid_status_names_def write_fields_def blank_bid_def create_scopes_def
        set_int_def set_opt_int_def set_date_def set_text_def set_status_def Let_def)
  have alone: "commit_groups rejecting_parser [(''Depot||Acme'', depot_group)] empty_db
                 = \<lparr> st_results = [?b], st_errors = [], st_store = ?d \<rparr>"
    by (simp add: commit_groups_def commit_step_def c)
  note t = bad_dates_fail_one_group_only
      [of rejecting_parser mill_group empty_db "[(''Depot||Acme'', depot_group)]" "''Mill||Acme''" "[]" mixed_rows]
  from t bad have cg: "commit_group rejecting_parser mill_group empty_db
       = (Inl (Text (invalid_dates_message mill_group)), empty_db)"
    by blast
  from t bad alone
  have res: "st_results (commit_groups rejecting_parser (group_rows mixed_rows) empty_db) = [?b]"
    and err: "st_errors (commit_groups rejecting_parser (group_rows mixed_rows) empty_db)
                = [(''Mill||Acme'', Text (invalid_dates_message mill_group))]"
    by (auto simp: mixed_rows_grouped)
  from t obtain n es d' where i: "import_bids rejecting_parser (Some mixed_rows) empty_db = (Imported n es, d')"
    and n: "n = length (st_results (commit_groups rejecting_parser (group_rows mixed_rows) empty_db))"
    and es: "es = st_errors (commit_groups rejecting_parser (group_rows mixed_rows) empty_db)"
    and bs: "bids d' = bids empty_db @ st_results (commit_groups rejecting_parser (group_rows mixed_rows) empty_db)"
    by blast
  from i n es bs res err
  have "fst (import_bids rejecting_parser (Some mixed_rows) empty_db)
       = Imported 1 [(''Mill||Acme'', Text (invalid_dates_message mill_group))]"
    and "map b_projectName (bids (snd (import_bids rejecting_parser (Some mixed_rows) empty_db))) = [''Depot'']"
    by (simp_all add: empty_db_def)
  with bad cg mixed_rows_grouped show ?thesis by simp
qed

end
